theory Spec2Isabelle
  imports Main "HOL-Library.Sublist" "HOL-Library.Multiset"
begin

section \<open>Python values and strings\<close>

text \<open>
  A Python \<^verbatim>\<open>str\<close> is a sequence of Unicode code points, so it is modelled as a list of
  natural numbers: \<^verbatim>\<open>len\<close> is \<open>length\<close>, \<^verbatim>\<open>s[:8]\<close> is \<open>take 8 s\<close>, \<^verbatim>\<open>+\<close> is \<open>@\<close>.
  \<open>ascii\<close> writes the ASCII part of a literal of the source; the other code points of
  a literal are given as hexadecimal numerals.
\<close>

type_synonym ustring = "nat list"

definition ascii :: "string \<Rightarrow> ustring" where
  "ascii s = map of_char s"

text \<open>
  The values the code reads out of JSON objects (item fields, criteria values). They are
  the JSON scalars; floating point numbers are not modelled, and a nested list or object
  at one of these places is not modelled either.
\<close>

datatype pyval = PNone | PBool bool | PInt int | PStr ustring

text \<open>Python's \<^verbatim>\<open>==\<close> on these values: \<^verbatim>\<open>bool\<close> is a subtype of \<^verbatim>\<open>int\<close>, so \<^verbatim>\<open>True == 1\<close>.\<close>

fun py_eq :: "pyval \<Rightarrow> pyval \<Rightarrow> bool" where
  "py_eq PNone PNone = True"
| "py_eq (PBool a) (PBool b) = (a = b)"
| "py_eq (PBool a) (PInt b) = ((if a then 1 else 0) = b)"
| "py_eq (PInt a) (PBool b) = (a = (if b then 1 else 0))"
| "py_eq (PInt a) (PInt b) = (a = b)"
| "py_eq (PStr a) (PStr b) = (a = b)"
| "py_eq _ _ = False"

text \<open>\<^verbatim>\<open>str(n)\<close> for an integer: decimal digits, with a minus sign when negative.\<close>

fun str_nat :: "nat \<Rightarrow> ustring" where
  "str_nat n = (if n < 10 then [48 + n] else str_nat (n div 10) @ [48 + n mod 10])"

declare str_nat.simps [simp del]

definition str_int :: "int \<Rightarrow> ustring" where
  "str_int i = (if i < 0 then 45 # str_nat (nat (- i)) else str_nat (nat i))"

text \<open>\<^verbatim>\<open>str(v)\<close>, which is what an f-string writes for \<^verbatim>\<open>{v}\<close>.\<close>

fun py_str :: "pyval \<Rightarrow> ustring" where
  "py_str PNone = ascii ''None''"
| "py_str (PBool b) = (if b then ascii ''True'' else ascii ''False'')"
| "py_str (PInt i) = str_int i"
| "py_str (PStr s) = s"

text \<open>\<^verbatim>\<open>sep.join(xs)\<close>.\<close>

fun py_join :: "ustring \<Rightarrow> ustring list \<Rightarrow> ustring" where
  "py_join sep [] = []"
| "py_join sep [x] = x"
| "py_join sep (x # y # ys) = x @ sep @ py_join sep (y # ys)"

text \<open>\<^verbatim>\<open>needle in hay\<close> for two strings: \<open>needle\<close> occurs in \<open>hay\<close> as a contiguous run.\<close>

fun str_in :: "ustring \<Rightarrow> ustring \<Rightarrow> bool" where
  "str_in needle [] = (needle = [])"
| "str_in needle (c # cs) = (prefix needle (c # cs) \<or> str_in needle cs)"

text \<open>
  \<^verbatim>\<open>s.strip()\<close> removes leading and trailing whitespace; \<open>is_space\<close> lists the code
  points for which \<^verbatim>\<open>str.isspace\<close> holds.
\<close>

definition is_space :: "nat \<Rightarrow> bool" where
  "is_space c \<longleftrightarrow>
     (0x9 \<le> c \<and> c \<le> 0xD) \<or> (0x1C \<le> c \<and> c \<le> 0x20) \<or> c = 0x85 \<or> c = 0xA0 \<or> c = 0x1680 \<or>
     (0x2000 \<le> c \<and> c \<le> 0x200A) \<or> c = 0x2028 \<or> c = 0x2029 \<or> c = 0x202F \<or> c = 0x205F \<or>
     c = 0x3000"

definition strip :: "ustring \<Rightarrow> ustring" where
  "strip s = rev (dropWhile is_space (rev (dropWhile is_space s)))"

text \<open>
  Exceptions: the instances of \<^verbatim>\<open>Exception\<close>. Every handler of the source is
  \<^verbatim>\<open>except Exception as e\<close> and uses only \<^verbatim>\<open>str(e)\<close>. \<open>LibraryError m\<close> is any exception
  raised by a call into pyzotero, with message \<open>m\<close>; \<open>AttributeError\<close> is what \<^verbatim>\<open>v.lower()\<close>
  raises when \<open>v\<close> is not a string.
\<close>

datatype exn = LibraryError ustring | AttributeError ustring

fun str_exn :: "exn \<Rightarrow> ustring" where
  "str_exn (LibraryError m) = m"
| "str_exn (AttributeError m) = m"

fun type_name :: "pyval \<Rightarrow> ustring" where
  "type_name PNone = ascii ''NoneType''"
| "type_name (PBool b) = ascii ''bool''"
| "type_name (PInt i) = ascii ''int''"
| "type_name (PStr s) = ascii ''str''"

definition no_attribute :: "pyval \<Rightarrow> ustring \<Rightarrow> exn" where
  "no_attribute v attr =
     AttributeError ([0x27] @ type_name v @ [0x27] @ ascii '' object has no attribute '' @
                     [0x27] @ attr @ [0x27])"

subsection \<open>Items\<close>

text \<open>
  An item is the JSON object pyzotero returns for a library entry. The code reads two of
  its members: \<^verbatim>\<open>key\<close>, and \<^verbatim>\<open>data\<close>, an object of fields. Either may be absent.
\<close>

type_synonym pydict = "ustring \<rightharpoonup> pyval"

record item =
  item_key :: "pyval option"
  item_data :: "pydict option"

text \<open>\<^verbatim>\<open>d.get(k)\<close> and \<^verbatim>\<open>d.get(k, default)\<close>.\<close>

definition dict_get :: "pydict \<Rightarrow> ustring \<Rightarrow> pyval" where
  "dict_get d k = (case d k of None \<Rightarrow> PNone | Some v \<Rightarrow> v)"

definition dict_get_default :: "pydict \<Rightarrow> ustring \<Rightarrow> pyval \<Rightarrow> pyval" where
  "dict_get_default d k dflt = (case d k of None \<Rightarrow> dflt | Some v \<Rightarrow> v)"

text \<open>\<^verbatim>\<open>item.get("key")\<close> and \<^verbatim>\<open>item.get("data", {})\<close>.\<close>

definition item_get_key :: "item \<Rightarrow> pyval" where
  "item_get_key it = (case item_key it of None \<Rightarrow> PNone | Some v \<Rightarrow> v)"

definition item_get_data :: "item \<Rightarrow> pydict" where
  "item_get_data it = (case item_data it of None \<Rightarrow> Map.empty | Some d \<Rightarrow> d)"

text \<open>
  The dict literal \<^verbatim>\<open>{"key": ..., "title": ..., "itemType": ..., "dateAdded": ...}\<close>
  that three operations build per item: its entries in insertion order.
\<close>

type_synonym summary = "(ustring \<times> pyval) list"

subsection \<open>String literals of the source\<close>

text \<open>
  Each constant is one string literal (or one literal part of an f-string) of
  \<^verbatim>\<open>main.py\<close>, at the line given.
\<close>

definition msg_empty_credentials :: ustring where (* line 38 *)
  "msg_empty_credentials = [0x9519, 0x8BEF, 0xFF1A, 0x5E93] @ ascii ''ID'' @ [0x548C] @
     ascii ''API'' @ [0x5BC6, 0x94A5, 0x4E0D, 0x80FD, 0x4E3A, 0x7A7A]"

definition msg_bad_library_type :: ustring where (* line 41 *)
  "msg_bad_library_type = [0x9519, 0x8BEF, 0xFF1A, 0x5E93, 0x7C7B, 0x578B, 0x5FC5, 0x987B] @
     [0x662F] @ ascii '' '' @ [0x27] @ ascii ''user'' @ [0x27] @ ascii '' '' @ [0x6216] @
     ascii '' '' @ [0x27] @ ascii ''group'' @ [0x27]"

definition msg_configured_head :: ustring where (* line 56 *)
  "msg_configured_head = [0x2705] @ ascii '' Zotero'' @
     [0x914D, 0x7F6E, 0x6210, 0x529F, 0xFF01, 0xA, 0x5E93] @ ascii ''ID: ''"

definition msg_library_type_label :: ustring where (* line 56 *)
  "msg_library_type_label = [0xA, 0x5E93, 0x7C7B, 0x578B] @ ascii '': ''"

definition msg_configure_failed_head :: ustring where (* line 58 *)
  "msg_configure_failed_head = [0x274C] @ ascii '' Zotero'' @
     [0x914D, 0x7F6E, 0x5931, 0x8D25] @ ascii '': ''"

definition msg_configure_failed_tail :: ustring where (* line 58 *)
  "msg_configure_failed_tail = [0xA, 0x8BF7, 0x68C0, 0x67E5, 0x60A8, 0x7684, 0x5E93] @
     ascii ''ID'' @ [0x548C] @ ascii ''API'' @
     [0x5BC6, 0x94A5, 0x662F, 0x5426, 0x6B63, 0x786E]"

definition msg_not_configured :: ustring where (* line 65 *)
  "msg_not_configured = [0x274C] @ ascii '' '' @ [0x9519, 0x8BEF, 0xFF1A] @ ascii ''Zotero'' @
     [0x672A, 0x914D, 0x7F6E, 0x3002, 0x8BF7, 0x5148, 0x4F7F, 0x7528] @
     ascii '' configure_zotero '' @ [0x5DE5, 0x5177, 0x8BBE, 0x7F6E, 0x60A8, 0x7684] @
     ascii ''API'' @ [0x51ED, 0x636E, 0x3002]"

definition untitled :: ustring where (* line 73 *)
  "untitled = [0x65E0, 0x6807, 0x9898]"

definition msg_found_head :: ustring where (* line 77 *)
  "msg_found_head = [0x627E, 0x5230] @ ascii '' ''"

definition msg_found_tail :: ustring where (* line 77 *)
  "msg_found_tail = ascii '' '' @ [0x4E2A, 0x6761, 0x76EE] @ ascii '':'' @ [0xA]"

definition msg_list_failed :: ustring where (* line 79 *)
  "msg_list_failed = [0x83B7, 0x53D6, 0x6761, 0x76EE, 0x5217, 0x8868, 0x5931, 0x8D25] @
     ascii '': ''"

definition msg_deleted :: ustring where (* line 90 *)
  "msg_deleted = [0x6210, 0x529F, 0x5220, 0x9664, 0x6761, 0x76EE] @ ascii '': ''"

definition msg_delete_failed :: ustring where (* line 92 *)
  "msg_delete_failed = [0x5220, 0x9664, 0x6761, 0x76EE, 0x5931, 0x8D25] @ ascii '': ''"

definition msg_batch_head :: ustring where (* line 111 *)
  "msg_batch_head = [0x6210, 0x529F, 0x5220, 0x9664] @ ascii '' ''"

definition msg_items_suffix :: ustring where (* line 111 *)
  "msg_items_suffix = ascii '' '' @ [0x4E2A, 0x6761, 0x76EE]"

definition msg_batch_errors_head :: ustring where (* line 113 *)
  "msg_batch_errors_head = [0xA, 0x5220, 0x9664, 0x5931, 0x8D25, 0x7684, 0x6761, 0x76EE] @
     ascii '':'' @ [0xA]"

definition msg_batch_failed :: ustring where (* line 117 *)
  "msg_batch_failed = [0x6279, 0x91CF, 0x5220, 0x9664, 0x5931, 0x8D25] @ ascii '': ''"

definition msg_search_head :: ustring where (* line 144 *)
  "msg_search_head = [0x641C, 0x7D22, 0x7ED3, 0x679C] @ ascii '' (''"

definition msg_search_tail :: ustring where (* line 144 *)
  "msg_search_tail = ascii '' '' @ [0x4E2A, 0x6761, 0x76EE] @ ascii ''):'' @ [0xA]"

definition msg_search_failed :: ustring where (* line 146 *)
  "msg_search_failed = [0x641C, 0x7D22, 0x5931, 0x8D25] @ ascii '': ''"

definition msg_details_head :: ustring where (* line 157 *)
  "msg_details_head = [0x6761, 0x76EE, 0x8BE6, 0x60C5] @ ascii '':'' @ [0xA]"

definition msg_details_failed :: ustring where (* line 159 *)
  "msg_details_failed = [0x83B7, 0x53D6, 0x6761, 0x76EE, 0x8BE6, 0x60C5, 0x5931, 0x8D25] @
     ascii '': ''"

definition msg_filter_head :: ustring where (* line 196 *)
  "msg_filter_head = [0x6839, 0x636E, 0x6761, 0x4EF6, 0x7B5B, 0x9009, 0x7ED3, 0x679C] @
     ascii '':'' @ [0xA]"

definition msg_retain_label :: ustring where (* line 197 *)
  "msg_retain_label = [0x4FDD, 0x7559, 0x6761, 0x76EE] @ ascii '': ''"

definition msg_count_unit :: ustring where (* line 197 *)
  "msg_count_unit = ascii '' '' @ [0x4E2A, 0xA]"

definition msg_delete_label :: ustring where (* line 198 *)
  "msg_delete_label = [0x5F85, 0x5220, 0x9664, 0x6761, 0x76EE] @ ascii '': ''"

definition msg_preview_head :: ustring where (* line 201 *)
  "msg_preview_head = [0xA] @ ascii ''['' @ [0x9884, 0x89C8, 0x6A21, 0x5F0F] @ ascii ''] '' @
     [0x5F85, 0x5220, 0x9664, 0x7684, 0x6761, 0x76EE] @ ascii '':'' @ [0xA]"

definition msg_more_head :: ustring where (* line 206 *)
  "msg_more_head = ascii ''... '' @ [0x8FD8, 0x6709] @ ascii '' ''"

definition msg_more_tail :: ustring where (* line 206 *)
  "msg_more_tail = ascii '' '' @ [0x4E2A, 0x6761, 0x76EE, 0xA]"

definition msg_item_delete_failed :: ustring where (* line 215 *)
  "msg_item_delete_failed = [0x5220, 0x9664, 0x5931, 0x8D25] @ ascii '' ''"

definition msg_deleted_total_head :: ustring where (* line 216 *)
  "msg_deleted_total_head = [0xA, 0x5B9E, 0x9645, 0x5220, 0x9664, 0x4E86] @ ascii '' ''"

definition msg_filter_failed :: ustring where (* line 220 *)
  "msg_filter_failed = [0x6267, 0x884C, 0x7B5B, 0x9009, 0x64CD, 0x4F5C, 0x5931, 0x8D25] @
     ascii '': ''"

definition msg_not_configured_json :: ustring where (* line 228 *)
  "msg_not_configured_json = ascii ''Zotero'' @
     [0x672A, 0x914D, 0x7F6E, 0x3002, 0x8BF7, 0x5148, 0x4F7F, 0x7528] @
     ascii '' configure_zotero '' @ [0x5DE5, 0x5177, 0x8BBE, 0x7F6E, 0x60A8, 0x7684] @
     ascii ''API'' @ [0x51ED, 0x636E, 0x3002]"

definition msg_stats_failed :: ustring where (* line 247 *)
  "msg_stats_failed = [0x83B7, 0x53D6, 0x5E93, 0x7EDF, 0x8BA1, 0x4FE1, 0x606F, 0x5931] @
     [0x8D25] @ ascii '': ''"

definition msg_recent_failed :: ustring where (* line 271 *)
  "msg_recent_failed = [0x83B7, 0x53D6, 0x6700, 0x8FD1, 0x6761, 0x76EE, 0x5931, 0x8D25] @
     ascii '': ''"

definition msg_unconfigured_report :: ustring where (* line 277 *)
  "msg_unconfigured_report = [0x274C] @ ascii '' Zotero'' @
     [0x672A, 0x914D, 0x7F6E, 0xA, 0x8BF7, 0x4F7F, 0x7528] @ ascii '' configure_zotero '' @
     [0x5DE5, 0x5177, 0x8BBE, 0x7F6E, 0x60A8, 0x7684] @ ascii ''API'' @
     [0x51ED, 0x636E, 0xA, 0xA, 0x9700, 0x8981, 0x7684, 0x4FE1] @ [0x606F] @ ascii '':'' @
     [0xA] @ ascii ''- library_id: '' @ [0x60A8, 0x7684] @ ascii ''Zotero'' @ [0x5E93] @
     ascii ''ID'' @ [0xA] @ ascii ''- api_key: '' @ [0x60A8, 0x7684] @ ascii ''Zotero API'' @
     [0x5BC6, 0x94A5, 0xA] @ ascii ''- library_type: '' @ [0x27] @ ascii ''user'' @ [0x27] @
     ascii '' '' @ [0x6216] @ ascii '' '' @ [0x27] @ ascii ''group'' @ [0x27]"

definition msg_config_ok_head :: ustring where (* line 282 *)
  "msg_config_ok_head = [0x2705] @ ascii '' Zotero'' @ [0x5DF2, 0x914D, 0x7F6E, 0xA, 0x5E93] @
     ascii ''ID: ''"

definition msg_api_key_label :: ustring where (* line 282 *)
  "msg_api_key_label = [0xA] @ ascii ''API'' @ [0x5BC6, 0x94A5] @ ascii '': ''"

section \<open>The external library and the process state\<close>

text \<open>
  What the code consumes from outside, taken as parameters:
  \<^item> \<open>str_lower\<close> is \<^verbatim>\<open>str.lower\<close>, and \<open>json_dumps\<close> is \<^verbatim>\<open>json.dumps\<close> on the four
    shapes of argument the code passes to it (values that came from JSON, counts and
    strings, on which it returns);
  \<^item> \<open>zotero_Zotero\<close> is the constructor \<^verbatim>\<open>zotero.Zotero(library_id, library_type, api_key)\<close>,
    and \<open>zot_top\<close>, \<open>zot_everything\<close>, \<open>zot_item\<close>, \<open>zot_delete_item\<close> are the methods of
    a client \<open>'h\<close>. Each acts on the state \<open>'w\<close> of the world outside the process (the
    library on the server, the client objects) and either returns or raises.
\<close>

datatype dumps_arg =
    DumpSummaries "summary list"
  | DumpItem item
  | DumpStats nat "(pyval \<times> nat) list"
  | DumpError ustring

record ('w, 'h) env =
  str_lower :: "ustring \<Rightarrow> ustring"
  json_dumps :: "dumps_arg \<Rightarrow> ustring"
  zotero_Zotero :: "ustring \<Rightarrow> ustring \<Rightarrow> ustring \<Rightarrow> 'w \<Rightarrow> (exn + 'h) \<times> 'w"
  zot_top :: "'h \<Rightarrow> int option \<Rightarrow> 'w \<Rightarrow> (exn + item list) \<times> 'w"
  zot_everything :: "'h \<Rightarrow> item list \<Rightarrow> 'w \<Rightarrow> (exn + item list) \<times> 'w"
  zot_item :: "'h \<Rightarrow> ustring \<Rightarrow> 'w \<Rightarrow> (exn + item) \<times> 'w"
  zot_delete_item :: "'h \<Rightarrow> pyval \<Rightarrow> 'w \<Rightarrow> (exn + unit) \<times> 'w"

text \<open>Every call into pyzotero is recorded, in order.\<close>

datatype 'h call =
    CallZotero ustring ustring ustring
  | CallTop 'h "int option"
  | CallEverything 'h "item list"
  | CallItem 'h ustring
  | CallDeleteItem 'h pyval

text \<open>
  The module's globals (lines 9 to 17), the world outside, and the record of calls.
\<close>

record ('w, 'h) state =
  ZOTERO_LIBRARY_ID :: ustring
  ZOTERO_API_KEY :: ustring
  ZOTERO_LIBRARY_TYPE :: ustring
  zot :: "'h option"
  world :: 'w
  calls :: "'h call list"

text \<open>
  Module start: the three globals come from the environment variables, with defaults
  \<^verbatim>\<open>""\<close>, \<^verbatim>\<open>""\<close> and \<^verbatim>\<open>"user"\<close>; no client is cached.
\<close>

definition initial_state ::
  "ustring option \<Rightarrow> ustring option \<Rightarrow> ustring option \<Rightarrow> 'w \<Rightarrow> ('w, 'h) state" where
  "initial_state env_id env_key env_type w =
     \<lparr>ZOTERO_LIBRARY_ID = (case env_id of None \<Rightarrow> [] | Some v \<Rightarrow> v),
      ZOTERO_API_KEY = (case env_key of None \<Rightarrow> [] | Some v \<Rightarrow> v),
      ZOTERO_LIBRARY_TYPE = (case env_type of None \<Rightarrow> ascii ''user'' | Some v \<Rightarrow> v),
      zot = None, world = w, calls = []\<rparr>"

text \<open>
  A computation takes the state and returns a value or raises, with the state it leaves.
\<close>

type_synonym ('a, 'w, 'h) py = "('w, 'h) state \<Rightarrow> (exn + 'a) \<times> ('w, 'h) state"

definition py_return :: "'a \<Rightarrow> ('a, 'w, 'h) py" where
  "py_return v s = (Inr v, s)"

definition py_bind :: "('a, 'w, 'h) py \<Rightarrow> ('a \<Rightarrow> ('b, 'w, 'h) py) \<Rightarrow> ('b, 'w, 'h) py" where
  "py_bind m f s = (case m s of (Inl e, s') \<Rightarrow> (Inl e, s') | (Inr v, s') \<Rightarrow> f v s')"

text \<open>\<^verbatim>\<open>try: body  except Exception as e: handler\<close>.\<close>

definition py_try :: "('a, 'w, 'h) py \<Rightarrow> (exn \<Rightarrow> ('a, 'w, 'h) py) \<Rightarrow> ('a, 'w, 'h) py" where
  "py_try body handler s = (case body s of (Inl e, s') \<Rightarrow> handler e s' | (Inr v, s') \<Rightarrow> (Inr v, s'))"

text \<open>A value computed without the state that may raise.\<close>

definition py_lift :: "exn + 'a \<Rightarrow> ('a, 'w, 'h) py" where
  "py_lift r s = (r, s)"

text \<open>The calls into pyzotero, each run on the world and recorded.\<close>

definition call_Zotero ::
  "('w, 'h) env \<Rightarrow> ustring \<Rightarrow> ustring \<Rightarrow> ustring \<Rightarrow> ('h, 'w, 'h) py" where
  "call_Zotero env library_id library_type api_key s =
     (case zotero_Zotero env library_id library_type api_key (world s) of
        (r, w) \<Rightarrow> (r, s\<lparr>world := w, calls := calls s @ [CallZotero library_id library_type api_key]\<rparr>))"

definition call_top :: "('w, 'h) env \<Rightarrow> 'h \<Rightarrow> int option \<Rightarrow> (item list, 'w, 'h) py" where
  "call_top env client limit s =
     (case zot_top env client limit (world s) of
        (r, w) \<Rightarrow> (r, s\<lparr>world := w, calls := calls s @ [CallTop client limit]\<rparr>))"

definition call_everything :: "('w, 'h) env \<Rightarrow> 'h \<Rightarrow> item list \<Rightarrow> (item list, 'w, 'h) py" where
  "call_everything env client page s =
     (case zot_everything env client page (world s) of
        (r, w) \<Rightarrow> (r, s\<lparr>world := w, calls := calls s @ [CallEverything client page]\<rparr>))"

definition call_item :: "('w, 'h) env \<Rightarrow> 'h \<Rightarrow> ustring \<Rightarrow> (item, 'w, 'h) py" where
  "call_item env client k s =
     (case zot_item env client k (world s) of
        (r, w) \<Rightarrow> (r, s\<lparr>world := w, calls := calls s @ [CallItem client k]\<rparr>))"

definition call_delete_item :: "('w, 'h) env \<Rightarrow> 'h \<Rightarrow> pyval \<Rightarrow> (unit, 'w, 'h) py" where
  "call_delete_item env client k s =
     (case zot_delete_item env client k (world s) of
        (r, w) \<Rightarrow> (r, s\<lparr>world := w, calls := calls s @ [CallDeleteItem client k]\<rparr>))"

text \<open>\<^verbatim>\<open>v.lower()\<close>: defined on strings, \<^verbatim>\<open>AttributeError\<close> on anything else.\<close>

definition py_lower :: "('w, 'h) env \<Rightarrow> pyval \<Rightarrow> exn + ustring" where
  "py_lower env v =
     (case v of PStr s \<Rightarrow> Inr (str_lower env s) | _ \<Rightarrow> Inl (no_attribute v (ascii ''lower'')))"

section \<open>Credential store and client gateway\<close>

text \<open>\<^verbatim>\<open>get_zotero_client\<close>, lines 19 to 29.\<close>

definition get_zotero_client :: "('w, 'h) env \<Rightarrow> ('h option, 'w, 'h) py" where
  "get_zotero_client env s =
     (if ZOTERO_LIBRARY_ID s = [] \<or> ZOTERO_API_KEY s = [] then (Inr None, s)
      else case zot s of
        Some client \<Rightarrow> (Inr (Some client), s)
      | None \<Rightarrow>
          (case call_Zotero env (ZOTERO_LIBRARY_ID s) (ZOTERO_LIBRARY_TYPE s) (ZOTERO_API_KEY s) s of
             (Inl e, s') \<Rightarrow> (Inr None, s')
           | (Inr client, s') \<Rightarrow> (Inr (Some client), s'\<lparr>zot := Some client\<rparr>)))"

text \<open>
  \<^verbatim>\<open>configure_zotero\<close>, lines 31 to 58. \<open>configure_probe\<close> is the \<^verbatim>\<open>try\<close> block of
  lines 52 to 58, run after the globals have been assigned.
\<close>

definition configure_probe :: "('w, 'h) env \<Rightarrow> (ustring, 'w, 'h) py" where
  "configure_probe env s =
     py_try
       (py_bind (call_Zotero env (ZOTERO_LIBRARY_ID s) (ZOTERO_LIBRARY_TYPE s) (ZOTERO_API_KEY s))
          (\<lambda>test_client. py_bind (call_top env test_client (Some 1))
             (\<lambda>_. py_return (msg_configured_head @ ZOTERO_LIBRARY_ID s @
                               msg_library_type_label @ ZOTERO_LIBRARY_TYPE s))))
       (\<lambda>e. py_return (msg_configure_failed_head @ str_exn e @ msg_configure_failed_tail))
       s"

definition configure_zotero ::
  "('w, 'h) env \<Rightarrow> ustring \<Rightarrow> ustring \<Rightarrow> ustring \<Rightarrow> (ustring, 'w, 'h) py" where
  "configure_zotero env library_id api_key library_type s =
     (if library_id = [] \<or> api_key = [] then (Inr msg_empty_credentials, s)
      else if library_type \<notin> set [ascii ''user'', ascii ''group''] then
        (Inr msg_bad_library_type, s)
      else
        configure_probe env
          (s\<lparr>ZOTERO_LIBRARY_ID := strip library_id,
             ZOTERO_API_KEY := strip api_key,
             ZOTERO_LIBRARY_TYPE := strip library_type,
             zot := None\<rparr>))"

text \<open>\<^verbatim>\<open>check_zotero_config\<close>, lines 273 to 282. \<open>masked_key\<close> is line 280.\<close>

definition masked_key :: "ustring \<Rightarrow> ustring" where
  "masked_key k =
     (if length k > 8 then take 8 k @ replicate (length k - 8) 0x2A
      else replicate (length k) 0x2A)"

definition check_zotero_config :: "(ustring, 'w, 'h) py" where
  "check_zotero_config s =
     (if ZOTERO_LIBRARY_ID s = [] \<or> ZOTERO_API_KEY s = [] then (Inr msg_unconfigured_report, s)
      else
        (Inr (msg_config_ok_head @ ZOTERO_LIBRARY_ID s @ msg_library_type_label @
              ZOTERO_LIBRARY_TYPE s @ msg_api_key_label @ masked_key (ZOTERO_API_KEY s)), s))"

section \<open>Operations on items\<close>

text \<open>
  \<^verbatim>\<open>list_items\<close>, lines 60 to 79. \<open>list_items_entry\<close> is the dict literal of lines 71 to
  76 and \<open>list_items_loop\<close> the loop of lines 70 to 76.
\<close>

definition list_items_entry :: "item \<Rightarrow> summary" where
  "list_items_entry it =
     [(ascii ''key'', item_get_key it),
      (ascii ''title'', dict_get_default (item_get_data it) (ascii ''title'') (PStr untitled)),
      (ascii ''itemType'', dict_get (item_get_data it) (ascii ''itemType'')),
      (ascii ''dateAdded'', dict_get (item_get_data it) (ascii ''dateAdded''))]"

fun list_items_loop :: "item list \<Rightarrow> summary list \<Rightarrow> summary list" where
  "list_items_loop [] result = result"
| "list_items_loop (it # items) result = list_items_loop items (result @ [list_items_entry it])"

definition list_items :: "('w, 'h) env \<Rightarrow> int \<Rightarrow> (ustring, 'w, 'h) py" where
  "list_items env limit =
     py_bind (get_zotero_client env) (\<lambda>z. case z of
        None \<Rightarrow> py_return msg_not_configured
      | Some client \<Rightarrow>
          py_try
            (py_bind (call_top env client (Some limit)) (\<lambda>items.
               py_return (msg_found_head @ str_nat (length (list_items_loop items [])) @
                          msg_found_tail @
                          json_dumps env (DumpSummaries (list_items_loop items [])))))
            (\<lambda>e. py_return (msg_list_failed @ str_exn e)))"

text \<open>\<^verbatim>\<open>delete_item\<close>, lines 81 to 92.\<close>

definition delete_item :: "('w, 'h) env \<Rightarrow> ustring \<Rightarrow> (ustring, 'w, 'h) py" where
  "delete_item env item_key_arg =
     py_bind (get_zotero_client env) (\<lambda>z. case z of
        None \<Rightarrow> py_return msg_not_configured
      | Some client \<Rightarrow>
          py_try
            (py_bind (call_delete_item env client (PStr item_key_arg)) (\<lambda>_.
               py_return (msg_deleted @ item_key_arg)))
            (\<lambda>e. py_return (msg_delete_failed @ str_exn e)))"

text \<open>
  \<^verbatim>\<open>delete_items_batch\<close>, lines 94 to 117. \<open>delete_items_batch_loop\<close> is the loop of
  lines 104 to 109 with its inner \<^verbatim>\<open>try\<close>; \<open>batch_report\<close> is lines 111 to 115.
\<close>

fun delete_items_batch_loop ::
  "('w, 'h) env \<Rightarrow> 'h \<Rightarrow> ustring list \<Rightarrow> nat \<Rightarrow> ustring list \<Rightarrow> (nat \<times> ustring list, 'w, 'h) py"
where
  "delete_items_batch_loop env client [] success_count errors s =
     (Inr (success_count, errors), s)"
| "delete_items_batch_loop env client (k # item_keys) success_count errors s =
     (case call_delete_item env client (PStr k) s of
        (Inr _, s') \<Rightarrow> delete_items_batch_loop env client item_keys (success_count + 1) errors s'
      | (Inl e, s') \<Rightarrow>
          delete_items_batch_loop env client item_keys success_count
            (errors @ [k @ ascii '': '' @ str_exn e]) s')"

definition batch_report :: "nat \<Rightarrow> ustring list \<Rightarrow> ustring" where
  "batch_report success_count errors =
     (msg_batch_head @ str_nat success_count @ msg_items_suffix) @
     (if errors \<noteq> [] then msg_batch_errors_head @ py_join [0xA] errors else [])"

definition delete_items_batch :: "('w, 'h) env \<Rightarrow> ustring list \<Rightarrow> (ustring, 'w, 'h) py" where
  "delete_items_batch env item_keys =
     py_bind (get_zotero_client env) (\<lambda>z. case z of
        None \<Rightarrow> py_return msg_not_configured
      | Some client \<Rightarrow>
          py_try
            (py_bind (delete_items_batch_loop env client item_keys 0 []) (\<lambda>(success_count, errors).
               py_return (batch_report success_count errors)))
            (\<lambda>e. py_return (msg_batch_failed @ str_exn e)))"

text \<open>
  \<^verbatim>\<open>search_items\<close>, lines 119 to 146. \<open>search_items_entry\<close> is the dict literal of lines
  137 to 142 and \<open>search_items_loop\<close> the loop of lines 130 to 142.
\<close>

definition search_items_entry :: "item \<Rightarrow> summary" where
  "search_items_entry it =
     (let data = item_get_data it in
      [(ascii ''key'', item_get_key it),
       (ascii ''title'', dict_get_default data (ascii ''title'') (PStr untitled)),
       (ascii ''itemType'', dict_get data (ascii ''itemType'')),
       (ascii ''dateAdded'', dict_get data (ascii ''dateAdded''))])"

fun search_items_loop ::
  "('w, 'h) env \<Rightarrow> ustring \<Rightarrow> ustring option \<Rightarrow> item list \<Rightarrow> summary list \<Rightarrow> exn + summary list"
where
  "search_items_loop env query item_type [] filtered_items = Inr filtered_items"
| "search_items_loop env query item_type (it # items) filtered_items =
     (case py_lower env (dict_get_default (item_get_data it) (ascii ''title'') (PStr [])) of
        Inl e \<Rightarrow> Inl e
      | Inr title \<Rightarrow>
          if str_in (str_lower env query) title then
            if (case item_type of
                  None \<Rightarrow> True
                | Some t \<Rightarrow> py_eq (dict_get (item_get_data it) (ascii ''itemType'')) (PStr t))
            then search_items_loop env query item_type items
                   (filtered_items @ [search_items_entry it])
            else search_items_loop env query item_type items filtered_items
          else search_items_loop env query item_type items filtered_items)"

definition search_items ::
  "('w, 'h) env \<Rightarrow> ustring \<Rightarrow> ustring option \<Rightarrow> (ustring, 'w, 'h) py" where
  "search_items env query item_type =
     py_bind (get_zotero_client env) (\<lambda>z. case z of
        None \<Rightarrow> py_return msg_not_configured
      | Some client \<Rightarrow>
          py_try
            (py_bind (call_top env client None) (\<lambda>page.
             py_bind (call_everything env client page) (\<lambda>items.
             py_bind (py_lift (search_items_loop env query item_type items [])) (\<lambda>filtered_items.
               py_return (msg_search_head @ str_nat (length filtered_items) @ msg_search_tail @
                          json_dumps env (DumpSummaries filtered_items))))))
            (\<lambda>e. py_return (msg_search_failed @ str_exn e)))"

text \<open>\<^verbatim>\<open>get_item_details\<close>, lines 148 to 159.\<close>

definition get_item_details :: "('w, 'h) env \<Rightarrow> ustring \<Rightarrow> (ustring, 'w, 'h) py" where
  "get_item_details env item_key_arg =
     py_bind (get_zotero_client env) (\<lambda>z. case z of
        None \<Rightarrow> py_return msg_not_configured
      | Some client \<Rightarrow>
          py_try
            (py_bind (call_item env client item_key_arg) (\<lambda>it.
               py_return (msg_details_head @ json_dumps env (DumpItem it))))
            (\<lambda>e. py_return (msg_details_failed @ str_exn e)))"

section \<open>Retention by criteria\<close>

text \<open>
  \<^verbatim>\<open>retain_items_by_criteria\<close>, lines 161 to 220. The criteria are a dict from strings
  to values. \<open>should_retain\<close> is the body of the loop for one item (lines 177 to 187):
  the flag starts \<open>True\<close> and each of the two \<^verbatim>\<open>if\<close> statements may clear it. In line 186
  the left operand \<^verbatim>\<open>criteria["title_contains"].lower()\<close> is evaluated first, then
  \<^verbatim>\<open>data.get("title", "").lower()\<close>; either raises on a value that is not a string.
\<close>

definition should_retain :: "('w, 'h) env \<Rightarrow> pydict \<Rightarrow> item \<Rightarrow> exn + bool" where
  "should_retain env criteria it =
     (let data = item_get_data it;
          flag1 = (case criteria (ascii ''item_type'') of
                     None \<Rightarrow> True
                   | Some t \<Rightarrow> if \<not> py_eq (dict_get data (ascii ''itemType'')) t then False else True)
      in case criteria (ascii ''title_contains'') of
           None \<Rightarrow> Inr flag1
         | Some n \<Rightarrow>
             (case py_lower env n of
                Inl e \<Rightarrow> Inl e
              | Inr needle \<Rightarrow>
                  (case py_lower env (dict_get_default data (ascii ''title'') (PStr [])) of
                     Inl e \<Rightarrow> Inl e
                   | Inr hay \<Rightarrow> Inr (if \<not> str_in needle hay then False else flag1))))"

text \<open>The loop of lines 176 to 194, with its two accumulators.\<close>

fun partition_loop ::
  "('w, 'h) env \<Rightarrow> pydict \<Rightarrow> item list \<Rightarrow> item list \<Rightarrow> item list \<Rightarrow> exn + item list \<times> item list"
where
  "partition_loop env criteria [] items_to_retain items_to_delete =
     Inr (items_to_retain, items_to_delete)"
| "partition_loop env criteria (it # all_items) items_to_retain items_to_delete =
     (case should_retain env criteria it of
        Inl e \<Rightarrow> Inl e
      | Inr flag \<Rightarrow>
          if flag then partition_loop env criteria all_items (items_to_retain @ [it]) items_to_delete
          else partition_loop env criteria all_items items_to_retain (items_to_delete @ [it]))"

text \<open>Lines 196 to 198.\<close>

definition filter_header :: "item list \<Rightarrow> item list \<Rightarrow> ustring" where
  "filter_header items_to_retain items_to_delete =
     msg_filter_head @
     (msg_retain_label @ str_nat (length items_to_retain) @ msg_count_unit) @
     (msg_delete_label @ str_nat (length items_to_delete) @ msg_count_unit)"

text \<open>The preview of lines 201 to 206: at most ten lines, then a count of the rest.\<close>

fun preview_loop :: "item list \<Rightarrow> ustring \<Rightarrow> ustring" where
  "preview_loop [] result = result"
| "preview_loop (it # items) result =
     preview_loop items
       (result @ ascii ''- '' @
        py_str (dict_get_default (item_get_data it) (ascii ''title'') (PStr untitled)) @
        ascii '' ('' @ py_str (item_get_key it) @ ascii '')'' @ [0xA])"

definition preview :: "item list \<Rightarrow> ustring \<Rightarrow> ustring" where
  "preview items_to_delete result =
     (let result1 = preview_loop (take 10 items_to_delete) (result @ msg_preview_head)
      in if length items_to_delete > 10
         then result1 @ msg_more_head @ str_nat (length items_to_delete - 10) @ msg_more_tail
         else result1)"

text \<open>The deletion loop of lines 209 to 215, with its inner \<^verbatim>\<open>try\<close>.\<close>

fun retain_delete_loop ::
  "('w, 'h) env \<Rightarrow> 'h \<Rightarrow> item list \<Rightarrow> nat \<Rightarrow> ustring \<Rightarrow> (nat \<times> ustring, 'w, 'h) py"
where
  "retain_delete_loop env client [] deleted_count result s = (Inr (deleted_count, result), s)"
| "retain_delete_loop env client (it # items) deleted_count result s =
     (case call_delete_item env client (item_get_key it) s of
        (Inr _, s') \<Rightarrow> retain_delete_loop env client items (deleted_count + 1) result s'
      | (Inl e, s') \<Rightarrow>
          retain_delete_loop env client items deleted_count
            (result @ msg_item_delete_failed @ py_str (item_get_key it) @ ascii '': '' @
             str_exn e @ [0xA]) s')"

definition retain_items_by_criteria ::
  "('w, 'h) env \<Rightarrow> pydict \<Rightarrow> bool \<Rightarrow> (ustring, 'w, 'h) py" where
  "retain_items_by_criteria env criteria dry_run =
     py_bind (get_zotero_client env) (\<lambda>z. case z of
        None \<Rightarrow> py_return msg_not_configured
      | Some client \<Rightarrow>
          py_try
            (py_bind (call_top env client None) (\<lambda>page.
             py_bind (call_everything env client page) (\<lambda>all_items.
             py_bind (py_lift (partition_loop env criteria all_items [] []))
               (\<lambda>(items_to_retain, items_to_delete).
                  if dry_run then
                    py_return (preview items_to_delete
                                 (filter_header items_to_retain items_to_delete))
                  else
                    py_bind (retain_delete_loop env client items_to_delete 0
                               (filter_header items_to_retain items_to_delete))
                      (\<lambda>(deleted_count, result).
                         py_return (result @ msg_deleted_total_head @ str_nat deleted_count @
                                    msg_items_suffix))))))
            (\<lambda>e. py_return (msg_filter_failed @ str_exn e)))"

text \<open>The signature's default, \<^verbatim>\<open>dry_run: bool = True\<close> (line 164): a call without it.\<close>

definition retain_items_by_criteria_default ::
  "('w, 'h) env \<Rightarrow> pydict \<Rightarrow> (ustring, 'w, 'h) py" where
  "retain_items_by_criteria_default env criteria = retain_items_by_criteria env criteria True"

section \<open>Resources\<close>

text \<open>
  \<^verbatim>\<open>get_library_stats\<close>, lines 223 to 247. \<open>type_counts\<close> is a dict in insertion order,
  its keys compared by \<^verbatim>\<open>==\<close>; \<open>counts_get\<close> is \<^verbatim>\<open>type_counts.get(k, 0)\<close> and \<open>counts_set\<close>
  is \<^verbatim>\<open>type_counts[k] = v\<close>.
\<close>

fun counts_get :: "(pyval \<times> nat) list \<Rightarrow> pyval \<Rightarrow> nat" where
  "counts_get [] k = 0"
| "counts_get ((k', v) # rest) k = (if py_eq k' k then v else counts_get rest k)"

fun counts_set :: "(pyval \<times> nat) list \<Rightarrow> pyval \<Rightarrow> nat \<Rightarrow> (pyval \<times> nat) list" where
  "counts_set [] k v = [(k, v)]"
| "counts_set ((k', v') # rest) k v =
     (if py_eq k' k then (k', v) # rest else (k', v') # counts_set rest k v)"

fun type_counts_loop :: "item list \<Rightarrow> (pyval \<times> nat) list \<Rightarrow> (pyval \<times> nat) list" where
  "type_counts_loop [] type_counts = type_counts"
| "type_counts_loop (it # items) type_counts =
     (let item_type = dict_get_default (item_get_data it) (ascii ''itemType'')
                        (PStr (ascii ''unknown''))
      in type_counts_loop items
           (counts_set type_counts item_type (counts_get type_counts item_type + 1)))"

definition get_library_stats :: "('w, 'h) env \<Rightarrow> (ustring, 'w, 'h) py" where
  "get_library_stats env =
     py_bind (get_zotero_client env) (\<lambda>z. case z of
        None \<Rightarrow> py_return (json_dumps env (DumpError msg_not_configured_json))
      | Some client \<Rightarrow>
          py_try
            (py_bind (call_top env client None) (\<lambda>items.
               py_return (json_dumps env
                            (DumpStats (length items) (type_counts_loop items [])))))
            (\<lambda>e. py_return (json_dumps env (DumpError (msg_stats_failed @ str_exn e)))))"

text \<open>
  \<^verbatim>\<open>get_recent_items\<close>, lines 249 to 271. \<open>recent_items_entry\<close> is the dict literal of
  lines 262 to 267.
\<close>

definition recent_items_entry :: "item \<Rightarrow> summary" where
  "recent_items_entry it =
     (let data = item_get_data it in
      [(ascii ''key'', item_get_key it),
       (ascii ''title'', dict_get_default data (ascii ''title'') (PStr untitled)),
       (ascii ''itemType'', dict_get data (ascii ''itemType'')),
       (ascii ''dateAdded'', dict_get data (ascii ''dateAdded''))])"

fun recent_items_loop :: "item list \<Rightarrow> summary list \<Rightarrow> summary list" where
  "recent_items_loop [] recent_items = recent_items"
| "recent_items_loop (it # items) recent_items =
     recent_items_loop items (recent_items @ [recent_items_entry it])"

definition get_recent_items :: "('w, 'h) env \<Rightarrow> (ustring, 'w, 'h) py" where
  "get_recent_items env =
     py_bind (get_zotero_client env) (\<lambda>z. case z of
        None \<Rightarrow> py_return (json_dumps env (DumpError msg_not_configured_json))
      | Some client \<Rightarrow>
          py_try
            (py_bind (call_top env client (Some 10)) (\<lambda>items.
               py_return (json_dumps env (DumpSummaries (recent_items_loop items [])))))
            (\<lambda>e. py_return (json_dumps env (DumpError (msg_recent_failed @ str_exn e)))))"

section \<open>Notions the properties are stated with\<close>

text \<open>Kinds of recorded call.\<close>

fun is_delete_call :: "'h call \<Rightarrow> bool" where
  "is_delete_call (CallDeleteItem client k) = True"
| "is_delete_call _ = False"

fun is_method_call :: "'h call \<Rightarrow> bool" where
  "is_method_call (CallZotero library_id library_type api_key) = False"
| "is_method_call _ = True"

fun is_str :: "pyval \<Rightarrow> bool" where
  "is_str (PStr s) = True"
| "is_str _ = False"

text \<open>
  The retention test of one item, as a predicate. An item with a missing title has the
  empty title. \<open>item_type_matches\<close> is equality with the item's \<^verbatim>\<open>itemType\<close> in Python's
  sense (\<^verbatim>\<open>==\<close>), which is exact, case-sensitive equality when the criterion is a string.
  \<open>lowered_title_contains\<close> says that the criterion, lower-cased by \<^verbatim>\<open>str.lower\<close>, occurs
  in the title, lower-cased by \<^verbatim>\<open>str.lower\<close>; each string is lower-cased as a whole.
  \<open>satisfies_criteria\<close> is the conjunction over the recognized criteria that are present.
\<close>

definition title_of :: "item \<Rightarrow> ustring" where
  "title_of it = (case item_get_data it (ascii ''title'') of Some (PStr t) \<Rightarrow> t | _ \<Rightarrow> [])"

definition item_type_matches :: "pyval \<Rightarrow> item \<Rightarrow> bool" where
  "item_type_matches t it \<longleftrightarrow> py_eq (dict_get (item_get_data it) (ascii ''itemType'')) t"

definition lowered_title_contains :: "('w, 'h) env \<Rightarrow> ustring \<Rightarrow> item \<Rightarrow> bool" where
  "lowered_title_contains env s it \<longleftrightarrow> sublist (str_lower env s) (str_lower env (title_of it))"

definition satisfies_criteria :: "('w, 'h) env \<Rightarrow> pydict \<Rightarrow> item \<Rightarrow> bool" where
  "satisfies_criteria env criteria it \<longleftrightarrow>
     (case criteria (ascii ''item_type'') of
        None \<Rightarrow> True
      | Some t \<Rightarrow> item_type_matches t it) \<and>
     (case criteria (ascii ''title_contains'') of
        Some (PStr s) \<Rightarrow> lowered_title_contains env s it
      | _ \<Rightarrow> True)"

text \<open>
  A case-insensitive substring match, as the specification words the criterion: some
  run of the title equals the criterion up to the case of each character. \<open>fold_char\<close>
  is the simple case folding of Unicode on the ASCII letters and the Greek letters
  U+0391 to U+03A9 and U+03B1 to U+03C9 (the small sigma and the final small sigma both
  fold to U+03C3); every other code point is left as it is.
\<close>

definition fold_char :: "nat \<Rightarrow> nat" where
  "fold_char c =
     (if 0x41 \<le> c \<and> c \<le> 0x5A then c + 32
      else if 0x391 \<le> c \<and> c \<le> 0x3A9 \<and> c \<noteq> 0x3A2 then c + 32
      else if c = 0x3C2 then 0x3C3
      else c)"

definition case_insensitive_substring :: "ustring \<Rightarrow> ustring \<Rightarrow> bool" where
  "case_insensitive_substring s t \<longleftrightarrow> sublist (map fold_char s) (map fold_char t)"

text \<open>
  The inputs on which the two criteria are defined: a recognized criterion that is
  present is a string, and when \<^verbatim>\<open>title_contains\<close> is present every title that is
  present is a string.
\<close>

definition criteria_typed :: "pydict \<Rightarrow> bool" where
  "criteria_typed criteria \<longleftrightarrow>
     (case criteria (ascii ''item_type'') of None \<Rightarrow> True | Some v \<Rightarrow> is_str v) \<and>
     (case criteria (ascii ''title_contains'') of None \<Rightarrow> True | Some v \<Rightarrow> is_str v)"

definition title_typed :: "item \<Rightarrow> bool" where
  "title_typed it \<longleftrightarrow>
     (case item_get_data it (ascii ''title'') of None \<Rightarrow> True | Some v \<Rightarrow> is_str v)"

definition retention_typed :: "pydict \<Rightarrow> item list \<Rightarrow> bool" where
  "retention_typed criteria all_items \<longleftrightarrow>
     criteria_typed criteria \<and>
     (criteria (ascii ''title_contains'') = None \<or> list_all title_typed all_items)"

text \<open>
  The attempts of a batch deletion, as the specification words them: each key is tried
  once, in order, whatever happened to the keys before it. An attempt is the key with
  the exception it raised, if any.
\<close>

fun attempts :: "('w, 'h) env \<Rightarrow> 'h \<Rightarrow> ustring list \<Rightarrow> 'w \<Rightarrow> (ustring \<times> exn option) list" where
  "attempts env client [] w = []"
| "attempts env client (k # ks) w =
     (case zot_delete_item env client (PStr k) w of
        (Inl e, w') \<Rightarrow> (k, Some e) # attempts env client ks w'
      | (Inr u, w') \<Rightarrow> (k, None) # attempts env client ks w')"

definition successes :: "(ustring \<times> exn option) list \<Rightarrow> nat" where
  "successes atts = length (filter (\<lambda>a. snd a = None) atts)"

fun failures :: "(ustring \<times> exn option) list \<Rightarrow> (ustring \<times> ustring) list" where
  "failures [] = []"
| "failures ((k, None) # atts) = failures atts"
| "failures ((k, Some e) # atts) = (k, str_exn e) # failures atts"

definition failure_line :: "ustring \<times> ustring \<Rightarrow> ustring" where
  "failure_line f = fst f @ ascii '': '' @ snd f"

text \<open>
  Reading a count back from a text: the value of a string of decimal digits.
\<close>

definition is_digit :: "nat \<Rightarrow> bool" where
  "is_digit c \<longleftrightarrow> 48 \<le> c \<and> c \<le> 57"

definition decimal_value :: "ustring \<Rightarrow> nat" where
  "decimal_value ds = foldl (\<lambda>acc c. 10 * acc + (c - 48)) 0 ds"

text \<open>The validation of \<^verbatim>\<open>configure_zotero\<close>, as the specification words it.\<close>

definition valid_configuration :: "ustring \<Rightarrow> ustring \<Rightarrow> ustring \<Rightarrow> bool" where
  "valid_configuration library_id api_key library_type \<longleftrightarrow>
     library_id \<noteq> [] \<and> api_key \<noteq> [] \<and>
     (library_type = ascii ''user'' \<or> library_type = ascii ''group'')"

text \<open>
  \<open>no_new_delete s s'\<close>: from \<open>s\<close> to \<open>s'\<close> the record of calls has grown, and by no call
  of \<^verbatim>\<open>delete_item\<close>.
\<close>

definition no_new_delete :: "('w, 'h) state \<Rightarrow> ('w, 'h) state \<Rightarrow> bool" where
  "no_new_delete s s' \<longleftrightarrow> (\<exists>new. calls s' = calls s @ new \<and> filter is_delete_call new = [])"

subsection \<open>A substitute client\<close>

text \<open>
  A small library to run the operations on: the world is the list of items on the
  server. Construction raises for the API key \<^verbatim>\<open>bad\<close>; the client made for the library
  id \<^verbatim>\<open>0\<close> is client 1, whose reads raise; deleting a key that is not in the library
  raises; lower-casing covers the ASCII letters.
\<close>

definition ascii_lower :: "ustring \<Rightarrow> ustring" where
  "ascii_lower s = map (\<lambda>c. if 65 \<le> c \<and> c \<le> 90 then c + 32 else c) s"

definition demo_env :: "(item list, nat) env" where
  "demo_env =
     \<lparr>str_lower = ascii_lower,
      json_dumps = (\<lambda>a. []),
      zotero_Zotero = (\<lambda>library_id library_type api_key w.
         if api_key = ascii ''bad'' then (Inl (LibraryError (ascii ''forbidden'')), w)
         else (Inr (if library_id = ascii ''0'' then 1 else 0), w)),
      zot_top = (\<lambda>client limit w.
         if client = 1 then (Inl (LibraryError (ascii ''not found'')), w)
         else (Inr (case limit of None \<Rightarrow> w | Some n \<Rightarrow> take (nat n) w), w)),
      zot_everything = (\<lambda>client page w. (Inr page, w)),
      zot_item = (\<lambda>client k w.
         case filter (\<lambda>it. item_get_key it = PStr k) w of
           [] \<Rightarrow> (Inl (LibraryError (ascii ''not found'')), w)
         | it # rest \<Rightarrow> (Inr it, w)),
      zot_delete_item = (\<lambda>client k w.
         if k \<in> set (map item_get_key w)
         then (Inr (), filter (\<lambda>it. item_get_key it \<noteq> k) w)
         else (Inl (LibraryError (ascii ''not found'')), w))\<rparr>"

definition demo_item :: "string \<Rightarrow> string \<Rightarrow> string \<Rightarrow> item" where
  "demo_item k title ty =
     \<lparr>item_key = Some (PStr (ascii k)),
      item_data = Some [ascii ''title'' \<mapsto> PStr (ascii title),
                        ascii ''itemType'' \<mapsto> PStr (ascii ty)]\<rparr>"

text \<open>A configured process with a cached client, on a given library.\<close>

definition demo_state :: "item list \<Rightarrow> (item list, nat) state" where
  "demo_state w =
     \<lparr>ZOTERO_LIBRARY_ID = ascii ''12345'', ZOTERO_API_KEY = ascii ''abcdefghijkl'',
      ZOTERO_LIBRARY_TYPE = ascii ''user'', zot = Some 0, world = w, calls = []\<rparr>"

definition demo_library :: "item list" where
  "demo_library =
     [demo_item ''A'' ''Logic'' ''book'', demo_item ''B'' ''Sets'' ''article'',
      demo_item ''C'' ''Maps'' ''book'']"

definition demo_criteria :: pydict where
  "demo_criteria =
     [ascii ''item_type'' \<mapsto> PStr (ascii ''book''),
      ascii ''title_contains'' \<mapsto> PStr (ascii ''LOG'')]"

text \<open>
  \<^verbatim>\<open>str.lower\<close> on strings made of ASCII letters, digits, spaces and the Greek letters
  U+0391 to U+03A9 and U+03B1 to U+03C9. Every capital goes to its small letter, but for
  the capital sigma U+03A3: it becomes the final small sigma U+03C2 when a letter stands
  before it and no letter stands after it, and the small sigma U+03C3 otherwise.
  \<open>lower_from prev s\<close> lower-cases \<open>s\<close>, where \<open>prev\<close> says whether the character before
  \<open>s\<close> is a letter.
\<close>

definition is_cased :: "nat \<Rightarrow> bool" where
  "is_cased c \<longleftrightarrow>
     (0x41 \<le> c \<and> c \<le> 0x5A) \<or> (0x61 \<le> c \<and> c \<le> 0x7A) \<or>
     (0x391 \<le> c \<and> c \<le> 0x3A9 \<and> c \<noteq> 0x3A2) \<or> (0x3B1 \<le> c \<and> c \<le> 0x3C9)"

definition lower_char :: "nat \<Rightarrow> nat" where
  "lower_char c =
     (if 0x41 \<le> c \<and> c \<le> 0x5A then c + 32
      else if 0x391 \<le> c \<and> c \<le> 0x3A9 \<and> c \<noteq> 0x3A2 then c + 32
      else c)"

fun lower_from :: "bool \<Rightarrow> ustring \<Rightarrow> ustring" where
  "lower_from prev [] = []"
| "lower_from prev (c # cs) =
     (if c = 0x3A3 then
        (if prev \<and> \<not> (case cs of [] \<Rightarrow> False | d # rest \<Rightarrow> is_cased d) then 0x3C2 else 0x3C3)
      else lower_char c) # lower_from (is_cased c) cs"

definition greek_lower :: "ustring \<Rightarrow> ustring" where
  "greek_lower s = lower_from False s"

text \<open>
  The substitute client with this lower-casing, and an item whose title is the word
  U+039F U+0394 U+039F U+03A3 followed by the letter U+0391.
\<close>

definition sigma_env :: "(item list, nat) env" where
  "sigma_env = demo_env\<lparr>str_lower := greek_lower\<rparr>"

definition sigma_item :: item where
  "sigma_item =
     \<lparr>item_key = Some (PStr (ascii ''S'')),
      item_data = Some [ascii ''title'' \<mapsto> PStr [0x39F, 0x394, 0x39F, 0x3A3, 0x391]]\<rparr>"

definition sigma_criteria :: pydict where
  "sigma_criteria = [ascii ''title_contains'' \<mapsto> PStr [0x39F, 0x394, 0x39F, 0x3A3]]"

section \<open>Basic facts\<close>

lemma str_in_sublist: "str_in needle hay \<longleftrightarrow> sublist needle hay"
  by (induction hay) (auto simp: sublist_Cons_right)

lemma ascii_eq_iff: "ascii s = ascii t \<longleftrightarrow> s = t"
  unfolding ascii_def by (meson inj_map_eq_map inj_of_char)

lemma py_eq_str: "is_str t \<Longrightarrow> py_eq v t \<longleftrightarrow> v = t"
  by (cases t; cases v) auto

lemma strip_whitespace: "list_all is_space s \<Longrightarrow> strip s = []"
  by (auto simp: strip_def list_all_iff dest: set_dropWhileD)

lemma strip_user: "strip (ascii ''user'') = ascii ''user''"
  by (simp add: strip_def ascii_def is_space_def)

lemma strip_group: "strip (ascii ''group'') = ascii ''group''"
  by (simp add: strip_def ascii_def is_space_def)

lemma map_eq_append_split:
  "map f t = a @ b \<Longrightarrow> \<exists>p r. t = p @ r \<and> map f p = a \<and> map f r = b"
  unfolding map_eq_append_conv by fastforce

text \<open>
  A case-insensitive match holds when some run of the text equals the pattern once both
  are case-folded; in particular when the pattern occurs as it stands.
\<close>

lemma case_insensitive_substring_iff:
  "case_insensitive_substring s t \<longleftrightarrow>
     (\<exists>u. sublist u t \<and> map fold_char u = map fold_char s)"
proof
  assume "case_insensitive_substring s t"
  then obtain ps ss where "map fold_char t = ps @ map fold_char s @ ss"
    by (auto simp: case_insensitive_substring_def sublist_def)
  then obtain p r where t: "t = p @ r" and "map fold_char r = map fold_char s @ ss"
    using map_eq_append_split by blast
  then obtain u q where "r = u @ q" and "map fold_char u = map fold_char s"
    using map_eq_append_split by blast
  with t have "t = p @ u @ q" "map fold_char u = map fold_char s"
    by simp_all
  then show "\<exists>u. sublist u t \<and> map fold_char u = map fold_char s"
    by (auto simp: sublist_def)
next
  assume "\<exists>u. sublist u t \<and> map fold_char u = map fold_char s"
  then obtain u p q where "t = p @ u @ q" "map fold_char u = map fold_char s"
    by (auto simp: sublist_def)
  then have "map fold_char t = map fold_char p @ map fold_char s @ map fold_char q"
    by simp
  then show "case_insensitive_substring s t"
    unfolding case_insensitive_substring_def sublist_def by blast
qed

lemma sublist_case_insensitive: "sublist s t \<Longrightarrow> case_insensitive_substring s t"
  unfolding case_insensitive_substring_iff by blast

text \<open>\<open>str_nat\<close> writes a number in decimal digits, from which the number is read back.\<close>

lemma decimal_value_snoc: "decimal_value (ds @ [c]) = 10 * decimal_value ds + (c - 48)"
  by (simp add: decimal_value_def)

lemma decimal_value_str_nat: "decimal_value (str_nat n) = n"
proof (induction n rule: str_nat.induct)
  case (1 n)
  show ?case
  proof (cases "n < 10")
    case True
    then show ?thesis
      by (simp add: str_nat.simps [of n] decimal_value_def)
  next
    case False
    with "1.IH" have "decimal_value (str_nat (n div 10)) = n div 10"
      by simp
    with False show ?thesis
      by (simp add: str_nat.simps [of n] decimal_value_snoc)
  qed
qed

lemma str_nat_digits: "str_nat n \<noteq> [] \<and> list_all is_digit (str_nat n)"
proof (induction n rule: str_nat.induct)
  case (1 n)
  show ?case
  proof (cases "n < 10")
    case True
    then show ?thesis
      by (simp add: str_nat.simps [of n] is_digit_def)
  next
    case False
    with "1.IH" have "list_all is_digit (str_nat (n div 10))"
      by simp
    moreover have "is_digit (48 + n mod 10)"
      by (simp add: is_digit_def)
    ultimately show ?thesis
      using False by (simp add: str_nat.simps [of n])
  qed
qed

text \<open>\<^verbatim>\<open>sep.join\<close> of a list that is not empty: the first, then each other after \<open>sep\<close>.\<close>

lemma py_join_Cons: "py_join sep (x # xs) = x @ concat (map (\<lambda>y. sep @ y) xs)"
  by (induction xs arbitrary: x) auto

text \<open>The definitions that evaluate an operation on the substitute client.\<close>

lemmas demo_simps = demo_library_def demo_criteria_def demo_item_def demo_env_def demo_state_def
  ascii_def ascii_lower_def item_get_data_def item_get_key_def dict_get_def dict_get_default_def
  should_retain_def py_lower_def Let_def

lemmas py_simps = py_bind_def py_try_def py_return_def py_lift_def

section \<open>Properties of the retention filter\<close>

text \<open>
  Whenever one pass of the loop body returns, its flag is the conjunction; on typed
  inputs it returns; an unrecognized key never matters.
\<close>

lemma should_retain_sound:
  "should_retain env criteria it = Inr b \<Longrightarrow> b = satisfies_criteria env criteria it"
  by (auto simp: should_retain_def satisfies_criteria_def item_type_matches_def
      lowered_title_contains_def title_of_def py_lower_def dict_get_default_def
      str_in_sublist Let_def
      split: option.splits pyval.splits if_splits)

lemma py_lower_raises:
  "py_lower env v = Inl e \<Longrightarrow> \<not> is_str v \<and> e = no_attribute v (ascii ''lower'')"
  by (cases v) (auto simp: py_lower_def)

lemma should_retain_raises:
  "should_retain env criteria it = Inl e \<Longrightarrow>
   criteria (ascii ''title_contains'') \<noteq> None \<and>
   (\<exists>v. \<not> is_str v \<and> e = no_attribute v (ascii ''lower''))"
  by (auto simp: should_retain_def Let_def split: option.splits sum.splits
      dest!: py_lower_raises)

lemma partition_loop_raises:
  "partition_loop env criteria all_items rs ds = Inl e \<Longrightarrow>
   criteria (ascii ''title_contains'') \<noteq> None \<and>
   (\<exists>v. \<not> is_str v \<and> e = no_attribute v (ascii ''lower''))"
proof (induction all_items arbitrary: rs ds)
  case Nil
  then show ?case by simp
next
  case (Cons it all_items)
  show ?case
  proof (cases "should_retain env criteria it")
    case (Inl e')
    with Cons.prems have "e' = e" by simp
    with Inl show ?thesis by (auto dest: should_retain_raises)
  next
    case (Inr b)
    with Cons.prems Cons.IH show ?thesis
      by (cases b) auto
  qed
qed

lemma should_retain_typed:
  assumes "criteria_typed criteria"
    and "criteria (ascii ''title_contains'') = None \<or> title_typed it"
  shows "should_retain env criteria it = Inr (satisfies_criteria env criteria it)"
  using assms
  by (auto simp: should_retain_def satisfies_criteria_def criteria_typed_def title_typed_def
      item_type_matches_def lowered_title_contains_def title_of_def py_lower_def
      dict_get_default_def py_eq_str str_in_sublist Let_def
      split: option.splits pyval.splits)

lemma should_retain_unrecognized:
  "k \<noteq> ascii ''item_type'' \<Longrightarrow> k \<noteq> ascii ''title_contains'' \<Longrightarrow>
   should_retain env (criteria(k \<mapsto> v)) it = should_retain env criteria it"
  by (simp add: should_retain_def)

text \<open>
  Outside the typed inputs the loop raises: a \<^verbatim>\<open>title_contains\<close> that is not a string
  fails at the first item, and no partition is produced.
\<close>

lemma partition_loop_untyped_raises:
  "criteria (ascii ''title_contains'') = Some v \<Longrightarrow> \<not> is_str v \<Longrightarrow>
   partition_loop env criteria (it # all_items) rs ds = Inl (no_attribute v (ascii ''lower''))"
  by (cases v) (simp_all add: should_retain_def py_lower_def)

lemma partition_loop_cong_criteria:
  "(\<And>it. should_retain env c1 it = should_retain env c2 it) \<Longrightarrow>
   partition_loop env c1 all_items rs ds = partition_loop env c2 all_items rs ds"
  by (induction all_items arbitrary: rs ds) (auto split: sum.splits)

text \<open>
  The loop with arbitrary accumulators: what it appends to each, whenever it returns.
\<close>

lemma partition_loop_acc:
  "partition_loop env criteria all_items rs ds = Inr (r, d) \<Longrightarrow>
   r = rs @ filter (\<lambda>it. should_retain env criteria it = Inr True) all_items \<and>
   d = ds @ filter (\<lambda>it. should_retain env criteria it = Inr False) all_items \<and>
   (\<forall>it \<in> set all_items. \<exists>b. should_retain env criteria it = Inr b)"
proof (induction all_items arbitrary: rs ds)
  case Nil
  then show ?case by simp
next
  case (Cons it all_items)
  from Cons.prems obtain b where b: "should_retain env criteria it = Inr b"
    by (cases "should_retain env criteria it") auto
  show ?case
  proof (cases b)
    case True
    with b Cons.prems have "partition_loop env criteria all_items (rs @ [it]) ds = Inr (r, d)"
      by simp
    from Cons.IH [OF this] b True show ?thesis by auto
  next
    case False
    with b Cons.prems have "partition_loop env criteria all_items rs (ds @ [it]) = Inr (r, d)"
      by simp
    from Cons.IH [OF this] b False show ?thesis by auto
  qed
qed

lemma partition_loop_typed:
  assumes "retention_typed criteria all_items"
  shows "partition_loop env criteria all_items rs ds =
         Inr (rs @ filter (satisfies_criteria env criteria) all_items,
              ds @ filter (\<lambda>it. \<not> satisfies_criteria env criteria it) all_items)"
  using assms
proof (induction all_items arbitrary: rs ds)
  case Nil
  then show ?case by simp
next
  case (Cons it all_items)
  from Cons.prems have typed: "criteria_typed criteria"
    and here: "criteria (ascii ''title_contains'') = None \<or> title_typed it"
    and rest: "retention_typed criteria all_items"
    by (auto simp: retention_typed_def)
  have "should_retain env criteria it = Inr (satisfies_criteria env criteria it)"
    using typed here by (rule should_retain_typed)
  then show ?case
    by (simp add: Cons.IH [OF rest])
qed

lemma demo_typed: "retention_typed demo_criteria demo_library"
  by (simp add: retention_typed_def criteria_typed_def title_typed_def demo_simps)

lemma demo_partition:
  "partition_loop demo_env demo_criteria demo_library [] [] =
     Inr ([demo_item ''A'' ''Logic'' ''book''],
          [demo_item ''B'' ''Sets'' ''article'', demo_item ''C'' ''Maps'' ''book''])"
  by (simp add: demo_simps)

lemma demo_partition_numeric:
  "partition_loop demo_env [ascii ''item_type'' \<mapsto> PInt 1] demo_library [] [] =
     Inr ([], demo_library)"
  by (simp add: demo_simps)

text \<open>
  Claim C2, as the code has it. Whenever the retention filter returns its partition, it
  retains an item iff the item satisfies every recognized criterion that is present, a
  conjunction, and deletes it otherwise. \<^verbatim>\<open>item_type\<close> is equality with the item's
  \<^verbatim>\<open>itemType\<close> (Python's \<^verbatim>\<open>==\<close>, exact and case-sensitive for a string criterion).
  \<^verbatim>\<open>title_contains\<close> requires that the criterion lower-cased by \<^verbatim>\<open>str.lower\<close> occurs in the
  title lower-cased by \<^verbatim>\<open>str.lower\<close>, a missing title taken as the empty string. On
  typed inputs the filter returns; when it does not return it has raised the
  \<^verbatim>\<open>AttributeError\<close> of \<^verbatim>\<open>.lower()\<close> on a value that is not a string, under a
  \<^verbatim>\<open>title_contains\<close> criterion. A key that is not recognized changes nothing, and empty
  criteria retain every item.
\<close>

theorem retention_filter_conjunction:
  "(partition_loop env criteria all_items [] [] = Inr (r, d) \<longrightarrow>
      r = filter (satisfies_criteria env criteria) all_items \<and>
      d = filter (\<lambda>it. \<not> satisfies_criteria env criteria it) all_items) \<and>
   (retention_typed criteria all_items \<longrightarrow>
      partition_loop env criteria all_items [] [] =
        Inr (filter (satisfies_criteria env criteria) all_items,
             filter (\<lambda>it. \<not> satisfies_criteria env criteria it) all_items)) \<and>
   (partition_loop env criteria all_items [] [] = Inl e \<longrightarrow>
      criteria (ascii ''title_contains'') \<noteq> None \<and>
      (\<exists>u. \<not> is_str u \<and> e = no_attribute u (ascii ''lower''))) \<and>
   (k \<noteq> ascii ''item_type'' \<and> k \<noteq> ascii ''title_contains'' \<longrightarrow>
      partition_loop env (criteria(k \<mapsto> v)) all_items [] [] =
        partition_loop env criteria all_items [] []) \<and>
   partition_loop env Map.empty all_items [] [] = Inr (all_items, []) \<and>
   (is_str t \<longrightarrow>
      item_type_matches t it = (dict_get (item_get_data it) (ascii ''itemType'') = t)) \<and>
   (item_get_data it (ascii ''title'') = None \<longrightarrow>
      lowered_title_contains env s it = sublist (str_lower env s) (str_lower env []))"
proof (intro conjI impI)
  assume run: "partition_loop env criteria all_items [] [] = Inr (r, d)"
  from partition_loop_acc [OF run]
  have r: "r = filter (\<lambda>it. should_retain env criteria it = Inr True) all_items"
    and d: "d = filter (\<lambda>it. should_retain env criteria it = Inr False) all_items"
    and ok: "\<forall>it \<in> set all_items. \<exists>b. should_retain env criteria it = Inr b"
    by simp_all
  have eq: "should_retain env criteria it = Inr (satisfies_criteria env criteria it)"
    if "it \<in> set all_items" for it
  proof -
    from ok that obtain b where b: "should_retain env criteria it = Inr b"
      by blast
    from should_retain_sound [OF b] b show ?thesis
      by simp
  qed
  show "r = filter (satisfies_criteria env criteria) all_items"
    unfolding r by (intro filter_cong) (auto simp: eq)
  show "d = filter (\<lambda>it. \<not> satisfies_criteria env criteria it) all_items"
    unfolding d by (intro filter_cong) (auto simp: eq)
next
  assume "retention_typed criteria all_items"
  then show "partition_loop env criteria all_items [] [] =
        Inr (filter (satisfies_criteria env criteria) all_items,
             filter (\<lambda>it. \<not> satisfies_criteria env criteria it) all_items)"
    by (simp add: partition_loop_typed)
next
  assume "partition_loop env criteria all_items [] [] = Inl e"
  from partition_loop_raises [OF this]
  show "criteria (ascii ''title_contains'') \<noteq> None"
    and "\<exists>u. \<not> is_str u \<and> e = no_attribute u (ascii ''lower'')"
    by simp_all
next
  assume "k \<noteq> ascii ''item_type'' \<and> k \<noteq> ascii ''title_contains''"
  then show "partition_loop env (criteria(k \<mapsto> v)) all_items [] [] =
        partition_loop env criteria all_items [] []"
    by (intro partition_loop_cong_criteria should_retain_unrecognized) auto
next
  have "retention_typed Map.empty all_items"
    by (simp add: retention_typed_def criteria_typed_def)
  then have "partition_loop env Map.empty all_items [] [] =
        Inr (filter (satisfies_criteria env Map.empty) all_items,
             filter (\<lambda>it. \<not> satisfies_criteria env Map.empty it) all_items)"
    by (simp add: partition_loop_typed)
  then show "partition_loop env Map.empty all_items [] [] = Inr (all_items, [])"
    by (simp add: satisfies_criteria_def)
next
  assume "is_str t"
  then show "item_type_matches t it = (dict_get (item_get_data it) (ascii ''itemType'') = t)"
    by (simp add: item_type_matches_def py_eq_str)
next
  assume "item_get_data it (ascii ''title'') = None"
  then show "lowered_title_contains env s it = sublist (str_lower env s) (str_lower env [])"
    by (simp add: lowered_title_contains_def title_of_def)
qed

text \<open>
  On the substitute library, with criteria \<^verbatim>\<open>{"item_type": "book", "title_contains": "LOG"}\<close>:
  only item A is a book whose title contains \<^verbatim>\<open>log\<close>. With \<^verbatim>\<open>{"item_type": 1}\<close> the filter
  returns too, and deletes everything. With \<^verbatim>\<open>{"title_contains": 5}\<close> it raises.
\<close>

lemma demo_partition_raises:
  "partition_loop demo_env [ascii ''title_contains'' \<mapsto> PInt 5] demo_library [] [] =
     Inl (no_attribute (PInt 5) (ascii ''lower''))"
  unfolding demo_library_def by (rule partition_loop_untyped_raises) simp_all

theorem retention_filter_conjunction_witness:
  "retention_typed demo_criteria demo_library \<and>
   partition_loop demo_env demo_criteria demo_library [] [] =
     Inr ([demo_item ''A'' ''Logic'' ''book''],
          [demo_item ''B'' ''Sets'' ''article'', demo_item ''C'' ''Maps'' ''book'']) \<and>
   filter (satisfies_criteria demo_env demo_criteria) demo_library =
     [demo_item ''A'' ''Logic'' ''book''] \<and>
   filter (\<lambda>it. \<not> satisfies_criteria demo_env demo_criteria it) demo_library =
     [demo_item ''B'' ''Sets'' ''article'', demo_item ''C'' ''Maps'' ''book''] \<and>
   partition_loop demo_env [ascii ''item_type'' \<mapsto> PInt 1] demo_library [] [] =
     Inr ([], demo_library) \<and>
   filter (satisfies_criteria demo_env [ascii ''item_type'' \<mapsto> PInt 1]) demo_library = [] \<and>
   partition_loop demo_env [ascii ''title_contains'' \<mapsto> PInt 5] demo_library [] [] =
     Inl (no_attribute (PInt 5) (ascii ''lower'')) \<and>
   [ascii ''title_contains'' \<mapsto> PInt 5] (ascii ''title_contains'') \<noteq> None \<and>
   partition_loop demo_env (demo_criteria(ascii ''colour'' \<mapsto> PInt 3)) demo_library [] [] =
     partition_loop demo_env demo_criteria demo_library [] [] \<and>
   partition_loop demo_env Map.empty demo_library [] [] = Inr (demo_library, []) \<and>
   is_str (PStr (ascii ''book'')) \<and>
   item_type_matches (PStr (ascii ''book'')) \<lparr>item_key = None, item_data = None\<rparr> =
     (dict_get (item_get_data \<lparr>item_key = None, item_data = None\<rparr>) (ascii ''itemType'') =
      PStr (ascii ''book'')) \<and>
   item_get_data \<lparr>item_key = None, item_data = None\<rparr> (ascii ''title'') = None \<and>
   lowered_title_contains demo_env (ascii ''LOG'') \<lparr>item_key = None, item_data = None\<rparr> =
     sublist (str_lower demo_env (ascii ''LOG'')) (str_lower demo_env [])"
proof -
  note inst1 = retention_filter_conjunction
      [of demo_env demo_criteria demo_library "[demo_item ''A'' ''Logic'' ''book'']"
          "[demo_item ''B'' ''Sets'' ''article'', demo_item ''C'' ''Maps'' ''book'']"
          "no_attribute (PInt 5) (ascii ''lower'')" "ascii ''colour''" "PInt 3"
          "PStr (ascii ''book'')" "\<lparr>item_key = None, item_data = None\<rparr>" "ascii ''LOG''"]
  note inst2 = retention_filter_conjunction
      [of demo_env "[ascii ''item_type'' \<mapsto> PInt 1]" demo_library "[]" demo_library]
  note inst3 = retention_filter_conjunction
      [of demo_env "[ascii ''title_contains'' \<mapsto> PInt 5]" demo_library _ _
          "no_attribute (PInt 5) (ascii ''lower'')"]
  have str: "is_str (PStr (ascii ''book''))"
    by simp
  have no_title: "item_get_data \<lparr>item_key = None, item_data = None\<rparr> (ascii ''title'') = None"
    by (simp add: item_get_data_def)
  have colour: "ascii ''colour'' \<noteq> ascii ''item_type'' \<and> ascii ''colour'' \<noteq> ascii ''title_contains''"
    by (simp add: ascii_def)
  from inst1 demo_partition
  have f1: "[demo_item ''A'' ''Logic'' ''book''] =
        filter (satisfies_criteria demo_env demo_criteria) demo_library \<and>
      [demo_item ''B'' ''Sets'' ''article'', demo_item ''C'' ''Maps'' ''book''] =
        filter (\<lambda>it. \<not> satisfies_criteria demo_env demo_criteria it) demo_library"
    by blast
  from inst2 demo_partition_numeric
  have f2: "[] = filter (satisfies_criteria demo_env [ascii ''item_type'' \<mapsto> PInt 1]) demo_library"
    by blast
  from inst3 demo_partition_raises
  have f3: "[ascii ''title_contains'' \<mapsto> PInt 5] (ascii ''title_contains'') \<noteq> None"
    by blast
  from inst1 colour
  have f4: "partition_loop demo_env (demo_criteria(ascii ''colour'' \<mapsto> PInt 3)) demo_library [] [] =
     partition_loop demo_env demo_criteria demo_library [] []"
    by blast
  from inst1
  have f5: "partition_loop demo_env Map.empty demo_library [] [] = Inr (demo_library, [])"
    by blast
  from inst1 str
  have f6: "item_type_matches (PStr (ascii ''book'')) \<lparr>item_key = None, item_data = None\<rparr> =
     (dict_get (item_get_data \<lparr>item_key = None, item_data = None\<rparr>) (ascii ''itemType'') =
      PStr (ascii ''book''))"
    by blast
  from inst1 no_title
  have f7: "lowered_title_contains demo_env (ascii ''LOG'') \<lparr>item_key = None, item_data = None\<rparr> =
     sublist (str_lower demo_env (ascii ''LOG'')) (str_lower demo_env [])"
    by blast
  from demo_typed demo_partition demo_partition_numeric demo_partition_raises
    f1 f2 f3 f4 f5 f6 f7 str no_title
  show ?thesis by simp
qed

text \<open>
  The test is not a case-insensitive substring match. The title U+039F U+0394 U+039F
  U+03A3 U+0391 holds the criterion U+039F U+0394 U+039F U+03A3 as it stands, and
  therefore up to case as well. \<^verbatim>\<open>str.lower\<close> ends the lower-cased criterion with the
  final sigma U+03C2 and has the small sigma U+03C3 at that place in the lower-cased
  title, so the item is not retained: it is put in the delete sequence.
\<close>

theorem retention_final_sigma_counterexample:
  "sublist [0x39F, 0x394, 0x39F, 0x3A3] (title_of sigma_item) \<and>
   case_insensitive_substring [0x39F, 0x394, 0x39F, 0x3A3] (title_of sigma_item) \<and>
   str_lower sigma_env [0x39F, 0x394, 0x39F, 0x3A3] = [0x3BF, 0x3B4, 0x3BF, 0x3C2] \<and>
   str_lower sigma_env (title_of sigma_item) = [0x3BF, 0x3B4, 0x3BF, 0x3C3, 0x3B1] \<and>
   should_retain sigma_env sigma_criteria sigma_item = Inr False \<and>
   partition_loop sigma_env sigma_criteria [sigma_item] [] [] = Inr ([], [sigma_item])"
proof -
  have t: "title_of sigma_item = [0x39F, 0x394, 0x39F, 0x3A3, 0x391]"
    by (simp add: title_of_def sigma_item_def item_get_data_def)
  have 1: "sublist [0x39F, 0x394, 0x39F, 0x3A3] (title_of sigma_item)"
    unfolding t str_in_sublist [symmetric] by simp
  have 2: "case_insensitive_substring [0x39F, 0x394, 0x39F, 0x3A3] (title_of sigma_item)"
    unfolding t case_insensitive_substring_def str_in_sublist [symmetric]
    by (simp add: fold_char_def)
  have 3: "str_lower sigma_env [0x39F, 0x394, 0x39F, 0x3A3] = [0x3BF, 0x3B4, 0x3BF, 0x3C2]"
    by (simp add: sigma_env_def greek_lower_def lower_char_def is_cased_def)
  have 4: "str_lower sigma_env (title_of sigma_item) = [0x3BF, 0x3B4, 0x3BF, 0x3C3, 0x3B1]"
    unfolding t by (simp add: sigma_env_def greek_lower_def lower_char_def is_cased_def)
  have 5: "should_retain sigma_env sigma_criteria sigma_item = Inr False"
    using 3 4
    by (simp add: should_retain_def sigma_criteria_def py_lower_def dict_get_default_def
        sigma_item_def item_get_data_def title_of_def ascii_def Let_def)
  then have 6: "partition_loop sigma_env sigma_criteria [sigma_item] [] [] = Inr ([], [sigma_item])"
    by simp
  from 1 2 3 4 5 6 show ?thesis by blast
qed

text \<open>
  Claim C3. The partition is total and exclusive, and keeps the input order. Typed
  inputs always yield a partition; and whenever the loop yields one, the two sequences
  together hold every input item exactly once (as items and as keys), share no item
  (and no key, when the keys of the input are distinct), and are subsequences of the
  input.
\<close>

theorem partition_total_exclusive_ordered:
  "(retention_typed criteria all_items \<longrightarrow>
      (\<exists>r d. partition_loop env criteria all_items [] [] = Inr (r, d))) \<and>
   (partition_loop env criteria all_items [] [] = Inr (r, d) \<longrightarrow>
      mset r + mset d = mset all_items \<and>
      mset (map item_get_key r) + mset (map item_get_key d) = mset (map item_get_key all_items) \<and>
      set r \<inter> set d = {} \<and>
      (distinct (map item_get_key all_items) \<longrightarrow>
         set (map item_get_key r) \<inter> set (map item_get_key d) = {}) \<and>
      subseq r all_items \<and> subseq d all_items)"
proof (intro conjI impI)
  assume "retention_typed criteria all_items"
  then show "\<exists>r d. partition_loop env criteria all_items [] [] = Inr (r, d)"
    by (simp add: partition_loop_typed)
next
  assume run: "partition_loop env criteria all_items [] [] = Inr (r, d)"
  define P where "P = (\<lambda>it. should_retain env criteria it = Inr True)"
  from partition_loop_acc [OF run]
  have r: "r = filter P all_items"
    and d0: "d = filter (\<lambda>it. should_retain env criteria it = Inr False) all_items"
    and ok: "\<forall>it \<in> set all_items. \<exists>b. should_retain env criteria it = Inr b"
    by (simp_all add: P_def)
  have d: "d = filter (\<lambda>it. \<not> P it) all_items"
    unfolding d0 P_def using ok by (intro filter_cong) auto
  show both: "mset r + mset d = mset all_items"
    unfolding r d by simp
  have "mset (map item_get_key r) + mset (map item_get_key d) =
        image_mset item_get_key (mset r + mset d)"
    by simp
  then show keys: "mset (map item_get_key r) + mset (map item_get_key d) =
        mset (map item_get_key all_items)"
    unfolding both by simp
  show "set (map item_get_key r) \<inter> set (map item_get_key d) = {}"
    if "distinct (map item_get_key all_items)"
  proof -
    from keys have "mset (map item_get_key r @ map item_get_key d) =
        mset (map item_get_key all_items)"
      by simp
    with that have "distinct (map item_get_key r @ map item_get_key d)"
      by (metis mset_eq_imp_distinct_iff)
    then show ?thesis by simp
  qed
  show "set r \<inter> set d = {}"
    unfolding r d by auto
  show "subseq r all_items" "subseq d all_items"
    unfolding r d by simp_all
qed

theorem partition_total_exclusive_ordered_witness:
  "retention_typed demo_criteria demo_library \<and>
   partition_loop demo_env demo_criteria demo_library [] [] =
     Inr ([demo_item ''A'' ''Logic'' ''book''],
          [demo_item ''B'' ''Sets'' ''article'', demo_item ''C'' ''Maps'' ''book'']) \<and>
   mset [demo_item ''A'' ''Logic'' ''book''] +
     mset [demo_item ''B'' ''Sets'' ''article'', demo_item ''C'' ''Maps'' ''book''] =
     mset demo_library \<and>
   mset (map item_get_key [demo_item ''A'' ''Logic'' ''book'']) +
     mset (map item_get_key
             [demo_item ''B'' ''Sets'' ''article'', demo_item ''C'' ''Maps'' ''book'']) =
     mset (map item_get_key demo_library) \<and>
   set [demo_item ''A'' ''Logic'' ''book''] \<inter>
     set [demo_item ''B'' ''Sets'' ''article'', demo_item ''C'' ''Maps'' ''book''] = {} \<and>
   distinct (map item_get_key demo_library) \<and>
   set (map item_get_key [demo_item ''A'' ''Logic'' ''book'']) \<inter>
     set (map item_get_key
            [demo_item ''B'' ''Sets'' ''article'', demo_item ''C'' ''Maps'' ''book'']) = {} \<and>
   subseq [demo_item ''A'' ''Logic'' ''book''] demo_library \<and>
   subseq [demo_item ''B'' ''Sets'' ''article'', demo_item ''C'' ''Maps'' ''book''] demo_library"
proof -
  note inst = partition_total_exclusive_ordered
               [of demo_criteria demo_library demo_env "[demo_item ''A'' ''Logic'' ''book'']"
                  "[demo_item ''B'' ''Sets'' ''article'', demo_item ''C'' ''Maps'' ''book'']"]
  have dist: "distinct (map item_get_key demo_library)"
    by (simp add: demo_library_def demo_item_def item_get_key_def ascii_def)
  from inst demo_partition dist
  have "mset [demo_item ''A'' ''Logic'' ''book''] +
     mset [demo_item ''B'' ''Sets'' ''article'', demo_item ''C'' ''Maps'' ''book''] =
     mset demo_library \<and>
   mset (map item_get_key [demo_item ''A'' ''Logic'' ''book'']) +
     mset (map item_get_key
             [demo_item ''B'' ''Sets'' ''article'', demo_item ''C'' ''Maps'' ''book'']) =
     mset (map item_get_key demo_library) \<and>
   set [demo_item ''A'' ''Logic'' ''book''] \<inter>
     set [demo_item ''B'' ''Sets'' ''article'', demo_item ''C'' ''Maps'' ''book''] = {} \<and>
   set (map item_get_key [demo_item ''A'' ''Logic'' ''book'']) \<inter>
     set (map item_get_key
            [demo_item ''B'' ''Sets'' ''article'', demo_item ''C'' ''Maps'' ''book'']) = {} \<and>
   subseq [demo_item ''A'' ''Logic'' ''book''] demo_library \<and>
   subseq [demo_item ''B'' ''Sets'' ''article'', demo_item ''C'' ''Maps'' ''book''] demo_library"
    by blast
  with demo_typed demo_partition dist show ?thesis by blast
qed

section \<open>Properties of the credential store and the gateway\<close>

lemma get_zotero_client_total: "\<exists>z. fst (get_zotero_client env s) = Inr z"
  by (auto simp: get_zotero_client_def split: option.splits prod.splits sum.splits)

lemma get_zotero_client_not_configured:
  "ZOTERO_LIBRARY_ID s = [] \<or> ZOTERO_API_KEY s = [] \<Longrightarrow> get_zotero_client env s = (Inr None, s)"
  by (auto simp: get_zotero_client_def)

lemma get_zotero_client_no_method_call:
  "\<exists>new. calls (snd (get_zotero_client env s)) = calls s @ new \<and> filter is_method_call new = []"
  by (auto simp: get_zotero_client_def call_Zotero_def split: option.splits prod.splits sum.splits)

text \<open>The calls into pyzotero leave the globals alone.\<close>

lemma call_Zotero_globals:
  "call_Zotero env a b c s = (r, s') \<Longrightarrow>
   ZOTERO_LIBRARY_ID s' = ZOTERO_LIBRARY_ID s \<and> ZOTERO_API_KEY s' = ZOTERO_API_KEY s \<and>
   ZOTERO_LIBRARY_TYPE s' = ZOTERO_LIBRARY_TYPE s \<and> zot s' = zot s"
  by (auto simp: call_Zotero_def split: prod.splits)

lemma call_top_globals:
  "call_top env client limit s = (r, s') \<Longrightarrow>
   ZOTERO_LIBRARY_ID s' = ZOTERO_LIBRARY_ID s \<and> ZOTERO_API_KEY s' = ZOTERO_API_KEY s \<and>
   ZOTERO_LIBRARY_TYPE s' = ZOTERO_LIBRARY_TYPE s \<and> zot s' = zot s"
  by (auto simp: call_top_def split: prod.splits)

text \<open>The three ways the probe can go.\<close>

lemma configure_probe_cases:
  "(\<exists>e s2. call_Zotero env (ZOTERO_LIBRARY_ID s) (ZOTERO_LIBRARY_TYPE s) (ZOTERO_API_KEY s) s =
             (Inl e, s2) \<and>
      configure_probe env s =
        (Inr (msg_configure_failed_head @ str_exn e @ msg_configure_failed_tail), s2)) \<or>
   (\<exists>client s2 e s3.
      call_Zotero env (ZOTERO_LIBRARY_ID s) (ZOTERO_LIBRARY_TYPE s) (ZOTERO_API_KEY s) s =
        (Inr client, s2) \<and>
      call_top env client (Some 1) s2 = (Inl e, s3) \<and>
      configure_probe env s =
        (Inr (msg_configure_failed_head @ str_exn e @ msg_configure_failed_tail), s3)) \<or>
   (\<exists>client s2 items s3.
      call_Zotero env (ZOTERO_LIBRARY_ID s) (ZOTERO_LIBRARY_TYPE s) (ZOTERO_API_KEY s) s =
        (Inr client, s2) \<and>
      call_top env client (Some 1) s2 = (Inr items, s3) \<and>
      configure_probe env s =
        (Inr (msg_configured_head @ ZOTERO_LIBRARY_ID s @ msg_library_type_label @
              ZOTERO_LIBRARY_TYPE s), s3))"
proof -
  obtain r1 s2 where
    c: "call_Zotero env (ZOTERO_LIBRARY_ID s) (ZOTERO_LIBRARY_TYPE s) (ZOTERO_API_KEY s) s = (r1, s2)"
    by (cases "call_Zotero env (ZOTERO_LIBRARY_ID s) (ZOTERO_LIBRARY_TYPE s) (ZOTERO_API_KEY s) s")
  show ?thesis
  proof (cases r1)
    case (Inl e)
    with c show ?thesis
      by (simp add: configure_probe_def py_simps)
  next
    case (Inr client)
    obtain r2 s3 where t: "call_top env client (Some 1) s2 = (r2, s3)"
      by (cases "call_top env client (Some 1) s2")
    with c Inr show ?thesis
      by (cases r2) (simp_all add: configure_probe_def py_simps)
  qed
qed

lemma configure_probe_globals:
  "\<exists>r s'. configure_probe env s = (Inr r, s') \<and>
     ZOTERO_LIBRARY_ID s' = ZOTERO_LIBRARY_ID s \<and> ZOTERO_API_KEY s' = ZOTERO_API_KEY s \<and>
     ZOTERO_LIBRARY_TYPE s' = ZOTERO_LIBRARY_TYPE s \<and> zot s' = zot s"
  using configure_probe_cases [of env s]
  by (elim disjE exE conjE) (auto dest!: call_Zotero_globals call_top_globals)

lemma configure_zotero_valid:
  "valid_configuration library_id api_key library_type \<Longrightarrow>
   configure_zotero env library_id api_key library_type s =
     configure_probe env
       (s\<lparr>ZOTERO_LIBRARY_ID := strip library_id, ZOTERO_API_KEY := strip api_key,
          ZOTERO_LIBRARY_TYPE := library_type, zot := None\<rparr>)"
  by (auto simp: valid_configuration_def configure_zotero_def strip_user strip_group)

text \<open>
  Claim C5. A \<^verbatim>\<open>configure_zotero\<close> call that fails validation (empty library id, empty
  API key, or a library type other than \<^verbatim>\<open>user\<close> and \<^verbatim>\<open>group\<close>) returns its error text
  and leaves the whole state as it was: the stored credentials, the cached client, the
  world and the record of calls. So \<^verbatim>\<open>get_zotero_client\<close> behaves as before.
\<close>

theorem rejected_configure_keeps_state:
  "\<not> valid_configuration library_id api_key library_type \<longrightarrow>
     snd (configure_zotero env library_id api_key library_type s) = s \<and>
     ZOTERO_LIBRARY_ID (snd (configure_zotero env library_id api_key library_type s)) =
       ZOTERO_LIBRARY_ID s \<and>
     ZOTERO_API_KEY (snd (configure_zotero env library_id api_key library_type s)) =
       ZOTERO_API_KEY s \<and>
     ZOTERO_LIBRARY_TYPE (snd (configure_zotero env library_id api_key library_type s)) =
       ZOTERO_LIBRARY_TYPE s \<and>
     zot (snd (configure_zotero env library_id api_key library_type s)) = zot s \<and>
     fst (configure_zotero env library_id api_key library_type s) =
       Inr (if library_id = [] \<or> api_key = [] then msg_empty_credentials
            else msg_bad_library_type) \<and>
     get_zotero_client env (snd (configure_zotero env library_id api_key library_type s)) =
       get_zotero_client env s"
  by (auto simp: valid_configuration_def configure_zotero_def)

text \<open>
  Two rejected calls on a configured process with library \<open>demo_library\<close>: an empty
  API key, and the library type \<^verbatim>\<open>team\<close>.
\<close>

theorem rejected_configure_keeps_state_witness:
  "\<not> valid_configuration (ascii ''777'') [] (ascii ''user'') \<and>
   configure_zotero demo_env (ascii ''777'') [] (ascii ''user'') (demo_state demo_library) =
     (Inr msg_empty_credentials, demo_state demo_library) \<and>
   \<not> valid_configuration (ascii ''777'') (ascii ''k'') (ascii ''team'') \<and>
   configure_zotero demo_env (ascii ''777'') (ascii ''k'') (ascii ''team'') (demo_state demo_library) =
     (Inr msg_bad_library_type, demo_state demo_library) \<and>
   get_zotero_client demo_env
     (snd (configure_zotero demo_env (ascii ''777'') (ascii ''k'') (ascii ''team'')
             (demo_state demo_library))) =
     (Inr (Some 0), demo_state demo_library)"
proof -
  have v1: "\<not> valid_configuration (ascii ''777'') [] (ascii ''user'')"
    by (simp add: valid_configuration_def)
  have v2: "\<not> valid_configuration (ascii ''777'') (ascii ''k'') (ascii ''team'')"
    by (simp add: valid_configuration_def ascii_def)
  have k: "ascii ''k'' \<noteq> []"
    by (simp add: ascii_def)
  have g: "get_zotero_client demo_env (demo_state demo_library) =
     (Inr (Some 0), demo_state demo_library)"
    by (simp add: get_zotero_client_def demo_state_def ascii_def)
  from v1 rejected_configure_keeps_state
         [of "ascii ''777''" "[]" "ascii ''user''" demo_env "demo_state demo_library"]
  have 1: "configure_zotero demo_env (ascii ''777'') [] (ascii ''user'') (demo_state demo_library) =
     (Inr msg_empty_credentials, demo_state demo_library)"
    by (simp add: prod_eq_iff)
  from v2 k rejected_configure_keeps_state
         [of "ascii ''777''" "ascii ''k''" "ascii ''team''" demo_env "demo_state demo_library"]
  have 2: "configure_zotero demo_env (ascii ''777'') (ascii ''k'') (ascii ''team'')
             (demo_state demo_library) =
     (Inr msg_bad_library_type, demo_state demo_library)"
    by (simp add: prod_eq_iff ascii_def)
  from v1 v2 1 2 g show ?thesis by simp
qed

text \<open>
  Claim C6. When \<^verbatim>\<open>configure_zotero\<close> passes validation, the probe runs on the state in
  which the credentials are already replaced (by the stripped arguments) and the cached
  client is already dropped. The call returns a text and never raises; whatever the
  probe does, the new credentials are stored and no client is cached afterwards. When
  the constructor raises, or \<^verbatim>\<open>top(limit=1)\<close> raises, the result is the failure text with
  the exception's message.
\<close>

theorem accepted_configure_persists:
  "valid_configuration library_id api_key library_type \<longrightarrow>
     configure_zotero env library_id api_key library_type s =
       configure_probe env
         (s\<lparr>ZOTERO_LIBRARY_ID := strip library_id, ZOTERO_API_KEY := strip api_key,
            ZOTERO_LIBRARY_TYPE := library_type, zot := None\<rparr>) \<and>
     (\<exists>r. fst (configure_zotero env library_id api_key library_type s) = Inr r) \<and>
     ZOTERO_LIBRARY_ID (snd (configure_zotero env library_id api_key library_type s)) =
       strip library_id \<and>
     ZOTERO_API_KEY (snd (configure_zotero env library_id api_key library_type s)) =
       strip api_key \<and>
     ZOTERO_LIBRARY_TYPE (snd (configure_zotero env library_id api_key library_type s)) =
       library_type \<and>
     zot (snd (configure_zotero env library_id api_key library_type s)) = None \<and>
     (zotero_Zotero env (strip library_id) library_type (strip api_key) (world s) = (Inl e, w) \<longrightarrow>
        fst (configure_zotero env library_id api_key library_type s) =
          Inr (msg_configure_failed_head @ str_exn e @ msg_configure_failed_tail)) \<and>
     (zotero_Zotero env (strip library_id) library_type (strip api_key) (world s) = (Inr client, w) \<and>
      zot_top env client (Some 1) w = (Inl e, w') \<longrightarrow>
        fst (configure_zotero env library_id api_key library_type s) =
          Inr (msg_configure_failed_head @ str_exn e @ msg_configure_failed_tail))"
proof
  assume v: "valid_configuration library_id api_key library_type"
  define s1 where "s1 = s\<lparr>ZOTERO_LIBRARY_ID := strip library_id, ZOTERO_API_KEY := strip api_key,
            ZOTERO_LIBRARY_TYPE := library_type, zot := None\<rparr>"
  from v have run: "configure_zotero env library_id api_key library_type s = configure_probe env s1"
    unfolding s1_def by (rule configure_zotero_valid)
  obtain r s' where p: "configure_probe env s1 = (Inr r, s')"
    and g: "ZOTERO_LIBRARY_ID s' = ZOTERO_LIBRARY_ID s1" "ZOTERO_API_KEY s' = ZOTERO_API_KEY s1"
      "ZOTERO_LIBRARY_TYPE s' = ZOTERO_LIBRARY_TYPE s1" "zot s' = zot s1"
    using configure_probe_globals [of env s1] by auto
  have fail1: "fst (configure_probe env s1) =
          Inr (msg_configure_failed_head @ str_exn e @ msg_configure_failed_tail)"
    if "zotero_Zotero env (strip library_id) library_type (strip api_key) (world s) = (Inl e, w)"
    using that
    by (simp add: configure_probe_def py_simps call_Zotero_def s1_def)
  have fail2: "fst (configure_probe env s1) =
          Inr (msg_configure_failed_head @ str_exn e @ msg_configure_failed_tail)"
    if "zotero_Zotero env (strip library_id) library_type (strip api_key) (world s) = (Inr client, w)"
      and "zot_top env client (Some 1) w = (Inl e, w')"
    using that
    by (simp add: configure_probe_def py_simps call_Zotero_def call_top_def s1_def)
  show "configure_zotero env library_id api_key library_type s =
       configure_probe env
         (s\<lparr>ZOTERO_LIBRARY_ID := strip library_id, ZOTERO_API_KEY := strip api_key,
            ZOTERO_LIBRARY_TYPE := library_type, zot := None\<rparr>) \<and>
     (\<exists>r. fst (configure_zotero env library_id api_key library_type s) = Inr r) \<and>
     ZOTERO_LIBRARY_ID (snd (configure_zotero env library_id api_key library_type s)) =
       strip library_id \<and>
     ZOTERO_API_KEY (snd (configure_zotero env library_id api_key library_type s)) =
       strip api_key \<and>
     ZOTERO_LIBRARY_TYPE (snd (configure_zotero env library_id api_key library_type s)) =
       library_type \<and>
     zot (snd (configure_zotero env library_id api_key library_type s)) = None \<and>
     (zotero_Zotero env (strip library_id) library_type (strip api_key) (world s) = (Inl e, w) \<longrightarrow>
        fst (configure_zotero env library_id api_key library_type s) =
          Inr (msg_configure_failed_head @ str_exn e @ msg_configure_failed_tail)) \<and>
     (zotero_Zotero env (strip library_id) library_type (strip api_key) (world s) = (Inr client, w) \<and>
      zot_top env client (Some 1) w = (Inl e, w') \<longrightarrow>
        fst (configure_zotero env library_id api_key library_type s) =
          Inr (msg_configure_failed_head @ str_exn e @ msg_configure_failed_tail))"
    unfolding run using p g fail1 fail2 by (simp add: s1_def)
qed

lemma strip_777: "strip (ascii ''777'') = ascii ''777''"
  by (simp add: strip_def ascii_def is_space_def)

lemma strip_bad: "strip (ascii ''bad'') = ascii ''bad''"
  by (simp add: strip_def ascii_def is_space_def)

lemma strip_0: "strip (ascii ''0'') = ascii ''0''"
  by (simp add: strip_def ascii_def is_space_def)

lemma strip_k: "strip (ascii ''k'') = ascii ''k''"
  by (simp add: strip_def ascii_def is_space_def)

text \<open>
  Two accepted calls on the substitute client whose probe fails: the constructor raises
  for the key \<^verbatim>\<open>bad\<close>, and the reads of the client for library \<^verbatim>\<open>0\<close> raise. The new
  credentials are stored all the same.
\<close>

theorem accepted_configure_persists_witness:
  "valid_configuration (ascii ''777'') (ascii ''bad'') (ascii ''group'') \<and>
   zotero_Zotero demo_env (strip (ascii ''777'')) (ascii ''group'') (strip (ascii ''bad''))
       (world (demo_state demo_library)) =
     (Inl (LibraryError (ascii ''forbidden'')), demo_library) \<and>
   fst (configure_zotero demo_env (ascii ''777'') (ascii ''bad'') (ascii ''group'')
          (demo_state demo_library)) =
     Inr (msg_configure_failed_head @ ascii ''forbidden'' @ msg_configure_failed_tail) \<and>
   ZOTERO_LIBRARY_ID (snd (configure_zotero demo_env (ascii ''777'') (ascii ''bad'') (ascii ''group'')
          (demo_state demo_library))) = ascii ''777'' \<and>
   ZOTERO_API_KEY (snd (configure_zotero demo_env (ascii ''777'') (ascii ''bad'') (ascii ''group'')
          (demo_state demo_library))) = ascii ''bad'' \<and>
   ZOTERO_LIBRARY_TYPE (snd (configure_zotero demo_env (ascii ''777'') (ascii ''bad'') (ascii ''group'')
          (demo_state demo_library))) = ascii ''group'' \<and>
   zot (snd (configure_zotero demo_env (ascii ''777'') (ascii ''bad'') (ascii ''group'')
          (demo_state demo_library))) = None \<and>
   valid_configuration (ascii ''0'') (ascii ''k'') (ascii ''user'') \<and>
   zotero_Zotero demo_env (strip (ascii ''0'')) (ascii ''user'') (strip (ascii ''k''))
       (world (demo_state demo_library)) = (Inr 1, demo_library) \<and>
   zot_top demo_env 1 (Some 1) demo_library = (Inl (LibraryError (ascii ''not found'')), demo_library) \<and>
   fst (configure_zotero demo_env (ascii ''0'') (ascii ''k'') (ascii ''user'')
          (demo_state demo_library)) =
     Inr (msg_configure_failed_head @ ascii ''not found'' @ msg_configure_failed_tail) \<and>
   ZOTERO_API_KEY (snd (configure_zotero demo_env (ascii ''0'') (ascii ''k'') (ascii ''user'')
          (demo_state demo_library))) = ascii ''k''"
proof -
  have v1: "valid_configuration (ascii ''777'') (ascii ''bad'') (ascii ''group'')"
    by (simp add: valid_configuration_def ascii_def)
  have z1: "zotero_Zotero demo_env (strip (ascii ''777'')) (ascii ''group'') (strip (ascii ''bad''))
       (world (demo_state demo_library)) =
     (Inl (LibraryError (ascii ''forbidden'')), demo_library)"
    unfolding strip_777 strip_bad by (simp add: demo_env_def demo_state_def)
  have v2: "valid_configuration (ascii ''0'') (ascii ''k'') (ascii ''user'')"
    by (simp add: valid_configuration_def ascii_def)
  have z2: "zotero_Zotero demo_env (strip (ascii ''0'')) (ascii ''user'') (strip (ascii ''k''))
       (world (demo_state demo_library)) = (Inr 1, demo_library)"
    unfolding strip_0 strip_k by (simp add: demo_env_def demo_state_def ascii_def)
  have t2: "zot_top demo_env 1 (Some 1) demo_library =
      (Inl (LibraryError (ascii ''not found'')), demo_library)"
    by (simp add: demo_env_def)
  from v1 z1 accepted_configure_persists
      [of "ascii ''777''" "ascii ''bad''" "ascii ''group''" demo_env "demo_state demo_library"
          "LibraryError (ascii ''forbidden'')" demo_library]
  have "fst (configure_zotero demo_env (ascii ''777'') (ascii ''bad'') (ascii ''group'')
          (demo_state demo_library)) =
     Inr (msg_configure_failed_head @ str_exn (LibraryError (ascii ''forbidden'')) @
          msg_configure_failed_tail) \<and>
   ZOTERO_LIBRARY_ID (snd (configure_zotero demo_env (ascii ''777'') (ascii ''bad'') (ascii ''group'')
          (demo_state demo_library))) = strip (ascii ''777'') \<and>
   ZOTERO_API_KEY (snd (configure_zotero demo_env (ascii ''777'') (ascii ''bad'') (ascii ''group'')
          (demo_state demo_library))) = strip (ascii ''bad'') \<and>
   ZOTERO_LIBRARY_TYPE (snd (configure_zotero demo_env (ascii ''777'') (ascii ''bad'') (ascii ''group'')
          (demo_state demo_library))) = ascii ''group'' \<and>
   zot (snd (configure_zotero demo_env (ascii ''777'') (ascii ''bad'') (ascii ''group'')
          (demo_state demo_library))) = None"
    by blast
  then have a: "fst (configure_zotero demo_env (ascii ''777'') (ascii ''bad'') (ascii ''group'')
          (demo_state demo_library)) =
     Inr (msg_configure_failed_head @ ascii ''forbidden'' @ msg_configure_failed_tail) \<and>
   ZOTERO_LIBRARY_ID (snd (configure_zotero demo_env (ascii ''777'') (ascii ''bad'') (ascii ''group'')
          (demo_state demo_library))) = ascii ''777'' \<and>
   ZOTERO_API_KEY (snd (configure_zotero demo_env (ascii ''777'') (ascii ''bad'') (ascii ''group'')
          (demo_state demo_library))) = ascii ''bad'' \<and>
   ZOTERO_LIBRARY_TYPE (snd (configure_zotero demo_env (ascii ''777'') (ascii ''bad'') (ascii ''group'')
          (demo_state demo_library))) = ascii ''group'' \<and>
   zot (snd (configure_zotero demo_env (ascii ''777'') (ascii ''bad'') (ascii ''group'')
          (demo_state demo_library))) = None"
    by (simp only: strip_777 strip_bad str_exn.simps)
  from v2 z2 t2 accepted_configure_persists
      [of "ascii ''0''" "ascii ''k''" "ascii ''user''" demo_env "demo_state demo_library"
          "LibraryError (ascii ''not found'')" demo_library 1 demo_library]
  have "fst (configure_zotero demo_env (ascii ''0'') (ascii ''k'') (ascii ''user'')
          (demo_state demo_library)) =
     Inr (msg_configure_failed_head @ str_exn (LibraryError (ascii ''not found'')) @
          msg_configure_failed_tail) \<and>
   ZOTERO_API_KEY (snd (configure_zotero demo_env (ascii ''0'') (ascii ''k'') (ascii ''user'')
          (demo_state demo_library))) = strip (ascii ''k'')"
    by blast
  then have b: "fst (configure_zotero demo_env (ascii ''0'') (ascii ''k'') (ascii ''user'')
          (demo_state demo_library)) =
     Inr (msg_configure_failed_head @ ascii ''not found'' @ msg_configure_failed_tail) \<and>
   ZOTERO_API_KEY (snd (configure_zotero demo_env (ascii ''0'') (ascii ''k'') (ascii ''user'')
          (demo_state demo_library))) = ascii ''k''"
    by (simp only: strip_k str_exn.simps)
  from v1 z1 a v2 z2 t2 b show ?thesis by blast
qed

text \<open>
  Claim C10. A library id or API key that consists of whitespace only is not empty, so
  it passes validation; what is stored is the stripped value, the empty string. After
  such a call \<^verbatim>\<open>get_zotero_client\<close> returns \<^verbatim>\<open>None\<close> and \<^verbatim>\<open>check_zotero_config\<close> reports
  the process as not configured.
\<close>

theorem whitespace_credentials:
  "library_id \<noteq> [] \<and> api_key \<noteq> [] \<and>
   (list_all is_space library_id \<or> list_all is_space api_key) \<and>
   (library_type = ascii ''user'' \<or> library_type = ascii ''group'') \<longrightarrow>
   valid_configuration library_id api_key library_type \<and>
   configure_zotero env library_id api_key library_type s =
     configure_probe env
       (s\<lparr>ZOTERO_LIBRARY_ID := strip library_id, ZOTERO_API_KEY := strip api_key,
          ZOTERO_LIBRARY_TYPE := library_type, zot := None\<rparr>) \<and>
   (ZOTERO_LIBRARY_ID (snd (configure_zotero env library_id api_key library_type s)) = [] \<or>
    ZOTERO_API_KEY (snd (configure_zotero env library_id api_key library_type s)) = []) \<and>
   fst (get_zotero_client env (snd (configure_zotero env library_id api_key library_type s))) =
     Inr None \<and>
   fst (check_zotero_config (snd (configure_zotero env library_id api_key library_type s))) =
     Inr msg_unconfigured_report"
proof
  assume a: "library_id \<noteq> [] \<and> api_key \<noteq> [] \<and>
   (list_all is_space library_id \<or> list_all is_space api_key) \<and>
   (library_type = ascii ''user'' \<or> library_type = ascii ''group'')"
  then have v: "valid_configuration library_id api_key library_type"
    by (simp add: valid_configuration_def)
  define s1 where "s1 = s\<lparr>ZOTERO_LIBRARY_ID := strip library_id, ZOTERO_API_KEY := strip api_key,
            ZOTERO_LIBRARY_TYPE := library_type, zot := None\<rparr>"
  define s' where "s' = snd (configure_probe env s1)"
  from v have run: "configure_zotero env library_id api_key library_type s = configure_probe env s1"
    unfolding s1_def by (rule configure_zotero_valid)
  have g: "ZOTERO_LIBRARY_ID s' = strip library_id" "ZOTERO_API_KEY s' = strip api_key"
    using configure_probe_globals [of env s1] by (auto simp: s'_def s1_def)
  from a have "strip library_id = [] \<or> strip api_key = []"
    by (auto simp: strip_whitespace)
  with g have empty: "ZOTERO_LIBRARY_ID s' = [] \<or> ZOTERO_API_KEY s' = []"
    by simp
  then have c: "get_zotero_client env s' = (Inr None, s')"
    by (rule get_zotero_client_not_configured)
  from empty have r: "check_zotero_config s' = (Inr msg_unconfigured_report, s')"
    by (auto simp: check_zotero_config_def)
  from v run empty c r
  show "valid_configuration library_id api_key library_type \<and>
   configure_zotero env library_id api_key library_type s =
     configure_probe env
       (s\<lparr>ZOTERO_LIBRARY_ID := strip library_id, ZOTERO_API_KEY := strip api_key,
          ZOTERO_LIBRARY_TYPE := library_type, zot := None\<rparr>) \<and>
   (ZOTERO_LIBRARY_ID (snd (configure_zotero env library_id api_key library_type s)) = [] \<or>
    ZOTERO_API_KEY (snd (configure_zotero env library_id api_key library_type s)) = []) \<and>
   fst (get_zotero_client env (snd (configure_zotero env library_id api_key library_type s))) =
     Inr None \<and>
   fst (check_zotero_config (snd (configure_zotero env library_id api_key library_type s))) =
     Inr msg_unconfigured_report"
    by (simp add: s'_def s1_def)
qed

text \<open>
  The library id \<^verbatim>\<open>" "\<close> (one space) with the key \<^verbatim>\<open>k\<close>, on a process that was configured
  and had a client cached.
\<close>

theorem whitespace_credentials_witness:
  "[0x20] \<noteq> ([] :: ustring) \<and> ascii ''k'' \<noteq> [] \<and> list_all is_space [0x20] \<and>
   valid_configuration [0x20] (ascii ''k'') (ascii ''user'') \<and>
   ZOTERO_LIBRARY_ID
     (snd (configure_zotero demo_env [0x20] (ascii ''k'') (ascii ''user'') (demo_state demo_library))) =
     [] \<and>
   fst (get_zotero_client demo_env
     (snd (configure_zotero demo_env [0x20] (ascii ''k'') (ascii ''user'') (demo_state demo_library)))) =
     Inr None \<and>
   fst (check_zotero_config
     (snd (configure_zotero demo_env [0x20] (ascii ''k'') (ascii ''user'') (demo_state demo_library)))) =
     Inr msg_unconfigured_report"
proof -
  have p: "[0x20] \<noteq> ([] :: ustring) \<and> ascii ''k'' \<noteq> [] \<and>
     (list_all is_space [0x20] \<or> list_all is_space (ascii ''k'')) \<and>
     (ascii ''user'' = ascii ''user'' \<or> ascii ''user'' = ascii ''group'')"
    by (simp add: ascii_def is_space_def)
  have sp: "list_all is_space [0x20]"
    by (simp add: is_space_def)
  have k: "ascii ''k'' \<noteq> []"
    by (simp add: ascii_def)
  from p whitespace_credentials
         [of "[0x20]" "ascii ''k''" "ascii ''user''" demo_env "demo_state demo_library"]
  have c: "valid_configuration [0x20] (ascii ''k'') (ascii ''user'') \<and>
   fst (get_zotero_client demo_env
     (snd (configure_zotero demo_env [0x20] (ascii ''k'') (ascii ''user'') (demo_state demo_library)))) =
     Inr None \<and>
   fst (check_zotero_config
     (snd (configure_zotero demo_env [0x20] (ascii ''k'') (ascii ''user'') (demo_state demo_library)))) =
     Inr msg_unconfigured_report"
    by blast
  have "ZOTERO_LIBRARY_ID (snd (configure_probe demo_env s)) = ZOTERO_LIBRARY_ID s" for s
    using configure_probe_globals [of demo_env s] by auto
  then have i: "ZOTERO_LIBRARY_ID
     (snd (configure_zotero demo_env [0x20] (ascii ''k'') (ascii ''user'') (demo_state demo_library))) =
     []"
    using c sp by (simp add: configure_zotero_valid strip_whitespace)
  from sp k c i show ?thesis by simp
qed

section \<open>The configuration report\<close>

text \<open>
  Claim C7. \<^verbatim>\<open>check_zotero_config\<close> masks the stored API key: the masked key has the
  length of the key; a key of at most 8 characters becomes mask characters only; of a
  longer key the first 8 characters are kept and each further character becomes one
  mask character. The report of a configured process (library id and API key both
  non-empty) ends with the masked key; a process with an empty library id or API key
  gets the not-configured report, which shows no key.
\<close>

theorem masked_key_report:
  "length (masked_key k) = length k \<and>
   (length k \<le> 8 \<longrightarrow> masked_key k = replicate (length k) 0x2A) \<and>
   (length k > 8 \<longrightarrow>
      take 8 (masked_key k) = take 8 k \<and>
      drop 8 (masked_key k) = replicate (length k - 8) 0x2A) \<and>
   (ZOTERO_LIBRARY_ID s \<noteq> [] \<and> ZOTERO_API_KEY s \<noteq> [] \<longrightarrow>
      check_zotero_config s =
        (Inr (msg_config_ok_head @ ZOTERO_LIBRARY_ID s @ msg_library_type_label @
              ZOTERO_LIBRARY_TYPE s @ msg_api_key_label @ masked_key (ZOTERO_API_KEY s)), s)) \<and>
   (ZOTERO_LIBRARY_ID s = [] \<or> ZOTERO_API_KEY s = [] \<longrightarrow>
      check_zotero_config s = (Inr msg_unconfigured_report, s))"
  by (auto simp: check_zotero_config_def masked_key_def)

text \<open>
  The key \<^verbatim>\<open>abcdefghijkl\<close> of \<open>demo_state\<close> is reported as \<^verbatim>\<open>abcdefgh****\<close>, and the key
  \<^verbatim>\<open>abc\<close> is masked as \<^verbatim>\<open>***\<close>; with the library id emptied the report is the
  not-configured one.
\<close>

theorem masked_key_report_witness:
  "length (ascii ''abcdefghijkl'') > 8 \<and>
   masked_key (ascii ''abcdefghijkl'') = ascii ''abcdefgh'' @ [0x2A, 0x2A, 0x2A, 0x2A] \<and>
   length (ascii ''abc'') \<le> 8 \<and>
   masked_key (ascii ''abc'') = [0x2A, 0x2A, 0x2A] \<and>
   ZOTERO_LIBRARY_ID (demo_state []) \<noteq> [] \<and> ZOTERO_API_KEY (demo_state []) \<noteq> [] \<and>
   check_zotero_config (demo_state []) =
     (Inr (msg_config_ok_head @ ascii ''12345'' @ msg_library_type_label @ ascii ''user'' @
           msg_api_key_label @ ascii ''abcdefgh'' @ [0x2A, 0x2A, 0x2A, 0x2A]), demo_state []) \<and>
   ZOTERO_LIBRARY_ID ((demo_state [])\<lparr>ZOTERO_LIBRARY_ID := []\<rparr>) = [] \<and>
   check_zotero_config ((demo_state [])\<lparr>ZOTERO_LIBRARY_ID := []\<rparr>) =
     (Inr msg_unconfigured_report, (demo_state [])\<lparr>ZOTERO_LIBRARY_ID := []\<rparr>)"
proof -
  have l: "length (ascii ''abcdefghijkl'') > 8" and s: "length (ascii ''abc'') \<le> 8"
    by (simp_all add: ascii_def)
  have c: "ZOTERO_LIBRARY_ID (demo_state []) \<noteq> [] \<and> ZOTERO_API_KEY (demo_state []) \<noteq> []"
    by (simp add: demo_state_def ascii_def)
  have t: "take 8 (ascii ''abcdefghijkl'') = ascii ''abcdefgh''"
    by (simp add: ascii_def)
  from l masked_key_report [of "ascii ''abcdefghijkl''" "demo_state []"]
  have "take 8 (masked_key (ascii ''abcdefghijkl'')) = take 8 (ascii ''abcdefghijkl'') \<and>
      drop 8 (masked_key (ascii ''abcdefghijkl'')) =
        replicate (length (ascii ''abcdefghijkl'') - 8) 0x2A"
    by blast
  then have "take 8 (masked_key (ascii ''abcdefghijkl'')) @ drop 8 (masked_key (ascii ''abcdefghijkl'')) =
      ascii ''abcdefgh'' @ [0x2A, 0x2A, 0x2A, 0x2A]"
    by (simp add: ascii_def)
  then have m: "masked_key (ascii ''abcdefghijkl'') = ascii ''abcdefgh'' @ [0x2A, 0x2A, 0x2A, 0x2A]"
    by (simp only: append_take_drop_id)
  from s masked_key_report [of "ascii ''abc''" "demo_state []"]
  have "masked_key (ascii ''abc'') = replicate (length (ascii ''abc'')) 0x2A"
    by blast
  then have n: "masked_key (ascii ''abc'') = [0x2A, 0x2A, 0x2A]"
    by (simp add: ascii_def)
  from c masked_key_report [of "ascii ''abc''" "demo_state []"]
  have "check_zotero_config (demo_state []) =
        (Inr (msg_config_ok_head @ ZOTERO_LIBRARY_ID (demo_state []) @ msg_library_type_label @
              ZOTERO_LIBRARY_TYPE (demo_state []) @ msg_api_key_label @
              masked_key (ZOTERO_API_KEY (demo_state []))), demo_state [])"
    by blast
  then have r: "check_zotero_config (demo_state []) =
     (Inr (msg_config_ok_head @ ascii ''12345'' @ msg_library_type_label @ ascii ''user'' @
           msg_api_key_label @ ascii ''abcdefgh'' @ [0x2A, 0x2A, 0x2A, 0x2A]), demo_state [])"
    using m by (simp add: demo_state_def)
  have e: "ZOTERO_LIBRARY_ID ((demo_state [])\<lparr>ZOTERO_LIBRARY_ID := []\<rparr>) = []"
    by simp
  with masked_key_report [of "ascii ''abc''" "(demo_state [])\<lparr>ZOTERO_LIBRARY_ID := []\<rparr>"]
  have u: "check_zotero_config ((demo_state [])\<lparr>ZOTERO_LIBRARY_ID := []\<rparr>) =
     (Inr msg_unconfigured_report, (demo_state [])\<lparr>ZOTERO_LIBRARY_ID := []\<rparr>)"
    by blast
  from l s c m n r e u show ?thesis by blast
qed

section \<open>Deleting\<close>

lemma call_delete_item_unfold:
  "call_delete_item env client k s =
     (fst (zot_delete_item env client k (world s)),
      s\<lparr>world := snd (zot_delete_item env client k (world s)),
        calls := calls s @ [CallDeleteItem client k]\<rparr>)"
  by (simp add: call_delete_item_def split: prod.splits)

lemma call_delete_item_calls:
  "calls (snd (call_delete_item env client k s)) = calls s @ [CallDeleteItem client k]"
  by (simp add: call_delete_item_unfold)

subsection \<open>The dry run of the retention workflow\<close>

lemma no_new_delete_trans: "no_new_delete s s1 \<Longrightarrow> no_new_delete s1 s2 \<Longrightarrow> no_new_delete s s2"
  by (auto simp: no_new_delete_def)

lemma call_Zotero_no_delete: "no_new_delete s (snd (call_Zotero env a b c s))"
  by (simp add: call_Zotero_def no_new_delete_def split: prod.splits)

lemma call_top_no_delete: "no_new_delete s (snd (call_top env client limit s))"
  by (simp add: call_top_def no_new_delete_def split: prod.splits)

lemma call_everything_no_delete: "no_new_delete s (snd (call_everything env client page s))"
  by (simp add: call_everything_def no_new_delete_def split: prod.splits)

lemma get_zotero_client_no_delete: "no_new_delete s (snd (get_zotero_client env s))"
  using call_Zotero_no_delete
          [of s env "ZOTERO_LIBRARY_ID s" "ZOTERO_LIBRARY_TYPE s" "ZOTERO_API_KEY s"]
  by (auto simp: get_zotero_client_def no_new_delete_def
      split: option.splits prod.splits sum.splits)

text \<open>The deletion loop calls \<^verbatim>\<open>delete_item\<close> once per item, in order, and never raises.\<close>

lemma retain_delete_loop_calls:
  "\<exists>n res s'. retain_delete_loop env client items deleted_count result s = (Inr (n, res), s') \<and>
     calls s' = calls s @ map (\<lambda>it. CallDeleteItem client (item_get_key it)) items"
proof (induction items arbitrary: deleted_count result s)
  case Nil
  show ?case by simp
next
  case (Cons it items)
  obtain r s1 where step: "call_delete_item env client (item_get_key it) s = (r, s1)"
    by (cases "call_delete_item env client (item_get_key it) s")
  have s1: "calls s1 = calls s @ [CallDeleteItem client (item_get_key it)]"
    using call_delete_item_calls [of env client "item_get_key it" s] step by simp
  show ?case
  proof (cases r)
    case (Inl e)
    with step Cons.IH [of deleted_count _ s1] s1 show ?thesis by auto
  next
    case (Inr u)
    with step Cons.IH [of "deleted_count + 1" result s1] s1 show ?thesis by auto
  qed
qed

lemma retain_dry_run_no_delete:
  "no_new_delete s (snd (retain_items_by_criteria env criteria True s))"
proof -
  obtain z s1 where g: "get_zotero_client env s = (Inr z, s1)"
    using get_zotero_client_total [of env s] by (cases "get_zotero_client env s") auto
  have 1: "no_new_delete s s1"
    using get_zotero_client_no_delete [of s env] g by simp
  show ?thesis
  proof (cases z)
    case None
    with g 1 show ?thesis
      by (simp add: retain_items_by_criteria_def py_simps)
  next
    case (Some client)
    obtain r2 s2 where t: "call_top env client None s1 = (r2, s2)"
      by (cases "call_top env client None s1")
    have 2: "no_new_delete s s2"
      using call_top_no_delete [of s1 env client None] t 1 by (auto intro: no_new_delete_trans)
    show ?thesis
    proof (cases r2)
      case (Inl e)
      with g Some t 2 show ?thesis
        by (simp add: retain_items_by_criteria_def py_simps)
    next
      case (Inr page)
      obtain r3 s3 where ev: "call_everything env client page s2 = (r3, s3)"
        by (cases "call_everything env client page s2")
      have 3: "no_new_delete s s3"
        using call_everything_no_delete [of s2 env client page] ev 2
        by (auto intro: no_new_delete_trans)
      from g Some t Inr ev 3 show ?thesis
        by (auto simp: retain_items_by_criteria_def py_simps split: sum.splits prod.splits)
    qed
  qed
qed

lemma retain_run_calls:
  assumes "get_zotero_client env s = (Inr (Some client), s1)"
    and "call_top env client None s1 = (Inr page, s2)"
    and "call_everything env client page s2 = (Inr all_items, s3)"
    and "partition_loop env criteria all_items [] [] = Inr (items_to_retain, items_to_delete)"
  shows "calls (snd (retain_items_by_criteria env criteria False s)) =
         calls s3 @ map (\<lambda>it. CallDeleteItem client (item_get_key it)) items_to_delete"
proof -
  obtain n res s4 where
    loop: "retain_delete_loop env client items_to_delete 0
             (filter_header items_to_retain items_to_delete) s3 = (Inr (n, res), s4)"
    and c: "calls s4 = calls s3 @ map (\<lambda>it. CallDeleteItem client (item_get_key it)) items_to_delete"
    using retain_delete_loop_calls [of env client items_to_delete 0
        "filter_header items_to_retain items_to_delete" s3] by auto
  from assms loop c show ?thesis
    by (simp add: retain_items_by_criteria_def py_simps)
qed

lemma fetch_no_delete:
  assumes "get_zotero_client env s = (Inr (Some client), s1)"
    and "call_top env client None s1 = (Inr page, s2)"
    and "call_everything env client page s2 = (Inr all_items, s3)"
  shows "no_new_delete s s3"
proof -
  have "no_new_delete s s1"
    using get_zotero_client_no_delete [of s env] assms(1) by simp
  moreover have "no_new_delete s1 s2"
    using call_top_no_delete [of s1 env client None] assms(2) by simp
  moreover have "no_new_delete s2 s3"
    using call_everything_no_delete [of s2 env client page] assms(3) by simp
  ultimately show ?thesis
    by (blast intro: no_new_delete_trans)
qed

text \<open>
  Claim C1. With \<^verbatim>\<open>dry_run\<close> true, \<^verbatim>\<open>retain_items_by_criteria\<close> makes no call of
  \<^verbatim>\<open>delete_item\<close>: the calls it adds to the record hold none. A call that leaves
  \<^verbatim>\<open>dry_run\<close> out is a dry run. With \<^verbatim>\<open>dry_run\<close> false, once the client is there, the
  collection is fetched and the filter has produced its delete sequence, the calls of
  \<^verbatim>\<open>delete_item\<close> that the operation adds are exactly one per item of the delete
  sequence, with that item's key, in the order of the sequence, which is the order in
  which the items were fetched; they are the last calls it makes.
\<close>

theorem retain_dry_run_frame:
  "(\<exists>new. calls (snd (retain_items_by_criteria env criteria True s)) = calls s @ new \<and>
          filter is_delete_call new = []) \<and>
   retain_items_by_criteria_default env criteria s = retain_items_by_criteria env criteria True s \<and>
   (get_zotero_client env s = (Inr (Some client), s1) \<and>
    call_top env client None s1 = (Inr page, s2) \<and>
    call_everything env client page s2 = (Inr all_items, s3) \<and>
    partition_loop env criteria all_items [] [] = Inr (items_to_retain, items_to_delete) \<longrightarrow>
      calls (snd (retain_items_by_criteria env criteria False s)) =
        calls s3 @ map (\<lambda>it. CallDeleteItem client (item_get_key it)) items_to_delete \<and>
      (\<exists>new. calls (snd (retain_items_by_criteria env criteria False s)) = calls s @ new \<and>
             filter is_delete_call new =
               map (\<lambda>it. CallDeleteItem client (item_get_key it)) items_to_delete) \<and>
      subseq items_to_delete all_items)"
proof (intro conjI impI)
  show "\<exists>new. calls (snd (retain_items_by_criteria env criteria True s)) = calls s @ new \<and>
          filter is_delete_call new = []"
    using retain_dry_run_no_delete [of s env criteria] by (simp add: no_new_delete_def)
next
  show "retain_items_by_criteria_default env criteria s =
        retain_items_by_criteria env criteria True s"
    by (simp add: retain_items_by_criteria_default_def)
next
  assume a: "get_zotero_client env s = (Inr (Some client), s1) \<and>
    call_top env client None s1 = (Inr page, s2) \<and>
    call_everything env client page s2 = (Inr all_items, s3) \<and>
    partition_loop env criteria all_items [] [] = Inr (items_to_retain, items_to_delete)"
  then show run: "calls (snd (retain_items_by_criteria env criteria False s)) =
        calls s3 @ map (\<lambda>it. CallDeleteItem client (item_get_key it)) items_to_delete"
    by (intro retain_run_calls) auto
  from a have "no_new_delete s s3"
    by (intro fetch_no_delete) auto
  then obtain pre where pre: "calls s3 = calls s @ pre" "filter is_delete_call pre = []"
    by (auto simp: no_new_delete_def)
  have "filter is_delete_call (map (\<lambda>it. CallDeleteItem client (item_get_key it)) items_to_delete) =
        map (\<lambda>it. CallDeleteItem client (item_get_key it)) items_to_delete"
    by (induction items_to_delete) auto
  with pre run
  have "calls (snd (retain_items_by_criteria env criteria False s)) =
          calls s @ (pre @ map (\<lambda>it. CallDeleteItem client (item_get_key it)) items_to_delete) \<and>
        filter is_delete_call
          (pre @ map (\<lambda>it. CallDeleteItem client (item_get_key it)) items_to_delete) =
          map (\<lambda>it. CallDeleteItem client (item_get_key it)) items_to_delete"
    by simp
  then show "\<exists>new. calls (snd (retain_items_by_criteria env criteria False s)) = calls s @ new \<and>
             filter is_delete_call new =
               map (\<lambda>it. CallDeleteItem client (item_get_key it)) items_to_delete"
    by blast
  from a have "partition_loop env criteria all_items [] [] = Inr (items_to_retain, items_to_delete)"
    by simp
  from partition_loop_acc [OF this]
  have "items_to_delete = filter (\<lambda>it. should_retain env criteria it = Inr False) all_items"
    by simp
  then show "subseq items_to_delete all_items"
    by simp
qed

text \<open>
  On the substitute library, with the criteria of \<open>demo_criteria\<close>: the real run
  deletes B and C, in that order, after the two fetch calls.
\<close>

lemma demo_get_client:
  "get_zotero_client demo_env (demo_state w) = (Inr (Some 0), demo_state w)"
  by (simp add: get_zotero_client_def demo_state_def ascii_def)

lemma demo_top:
  "call_top demo_env 0 None (demo_state w) = (Inr w, (demo_state w)\<lparr>calls := [CallTop 0 None]\<rparr>)"
  by (simp add: call_top_def demo_env_def demo_state_def)

lemma demo_everything:
  "call_everything demo_env 0 w ((demo_state w)\<lparr>calls := [CallTop 0 None]\<rparr>) =
     (Inr w, (demo_state w)\<lparr>calls := [CallTop 0 None, CallEverything 0 w]\<rparr>)"
  by (simp add: call_everything_def demo_env_def demo_state_def)

theorem retain_dry_run_frame_witness:
  "get_zotero_client demo_env (demo_state demo_library) = (Inr (Some 0), demo_state demo_library) \<and>
   call_top demo_env 0 None (demo_state demo_library) =
     (Inr demo_library, (demo_state demo_library)\<lparr>calls := [CallTop 0 None]\<rparr>) \<and>
   call_everything demo_env 0 demo_library ((demo_state demo_library)\<lparr>calls := [CallTop 0 None]\<rparr>) =
     (Inr demo_library,
      (demo_state demo_library)\<lparr>calls := [CallTop 0 None, CallEverything 0 demo_library]\<rparr>) \<and>
   partition_loop demo_env demo_criteria demo_library [] [] =
     Inr ([demo_item ''A'' ''Logic'' ''book''],
          [demo_item ''B'' ''Sets'' ''article'', demo_item ''C'' ''Maps'' ''book'']) \<and>
   calls (snd (retain_items_by_criteria demo_env demo_criteria False (demo_state demo_library))) =
     [CallTop 0 None, CallEverything 0 demo_library,
      CallDeleteItem 0 (PStr (ascii ''B'')), CallDeleteItem 0 (PStr (ascii ''C''))] \<and>
   filter is_delete_call
     (calls (snd (retain_items_by_criteria demo_env demo_criteria True (demo_state demo_library)))) =
     []"
proof -
  note inst = retain_dry_run_frame
      [of demo_env demo_criteria "demo_state demo_library" 0 "demo_state demo_library" demo_library
          "(demo_state demo_library)\<lparr>calls := [CallTop 0 None]\<rparr>" demo_library
          "(demo_state demo_library)\<lparr>calls := [CallTop 0 None, CallEverything 0 demo_library]\<rparr>"
          "[demo_item ''A'' ''Logic'' ''book'']"
          "[demo_item ''B'' ''Sets'' ''article'', demo_item ''C'' ''Maps'' ''book'']"]
  from inst demo_get_client [of demo_library] demo_top [of demo_library]
    demo_everything [of demo_library] demo_partition
  have "calls (snd (retain_items_by_criteria demo_env demo_criteria False (demo_state demo_library))) =
        calls ((demo_state demo_library)\<lparr>calls := [CallTop 0 None, CallEverything 0 demo_library]\<rparr>) @
        map (\<lambda>it. CallDeleteItem 0 (item_get_key it))
          [demo_item ''B'' ''Sets'' ''article'', demo_item ''C'' ''Maps'' ''book'']"
    by blast
  then have run: "calls (snd (retain_items_by_criteria demo_env demo_criteria False
                          (demo_state demo_library))) =
     [CallTop 0 None, CallEverything 0 demo_library,
      CallDeleteItem 0 (PStr (ascii ''B'')), CallDeleteItem 0 (PStr (ascii ''C''))]"
    by (simp add: demo_item_def item_get_key_def)
  from inst obtain new where
    "calls (snd (retain_items_by_criteria demo_env demo_criteria True (demo_state demo_library))) =
       calls (demo_state demo_library) @ new" and "filter is_delete_call new = []"
    by blast
  then have dry: "filter is_delete_call
     (calls (snd (retain_items_by_criteria demo_env demo_criteria True (demo_state demo_library)))) =
     []"
    by (simp add: demo_state_def)
  from demo_get_client [of demo_library] demo_top [of demo_library]
    demo_everything [of demo_library] demo_partition run dry
  show ?thesis by blast
qed

subsection \<open>Batch deletion\<close>

text \<open>
  The loop with arbitrary accumulators: it adds the successes of the attempts to the
  count and the lines of their failures to the errors, and calls \<^verbatim>\<open>delete_item\<close> once
  per key.
\<close>

lemma delete_items_batch_loop_spec:
  "\<exists>s'. delete_items_batch_loop env client item_keys success_count errors s =
          (Inr (success_count + successes (attempts env client item_keys (world s)),
                errors @ map failure_line (failures (attempts env client item_keys (world s)))),
           s') \<and>
        calls s' = calls s @ map (\<lambda>k. CallDeleteItem client (PStr k)) item_keys"
proof (induction item_keys arbitrary: success_count errors s)
  case Nil
  show ?case by (simp add: successes_def)
next
  case (Cons k item_keys)
  obtain r w' where z: "zot_delete_item env client (PStr k) (world s) = (r, w')"
    by (cases "zot_delete_item env client (PStr k) (world s)")
  define s1 where "s1 = s\<lparr>world := w', calls := calls s @ [CallDeleteItem client (PStr k)]\<rparr>"
  have step: "call_delete_item env client (PStr k) s = (r, s1)"
    by (simp add: call_delete_item_unfold z s1_def)
  have w: "world s1 = w'" and c: "calls s1 = calls s @ [CallDeleteItem client (PStr k)]"
    by (simp_all add: s1_def)
  show ?case
  proof (cases r)
    case (Inl e)
    from Cons.IH [of success_count "errors @ [k @ ascii '': '' @ str_exn e]" s1]
    show ?thesis
      using step Inl z w c by (auto simp: successes_def failure_line_def)
  next
    case (Inr u)
    from Cons.IH [of "success_count + 1" errors s1]
    show ?thesis
      using step Inr z w c by (auto simp: successes_def)
  qed
qed

lemma attempts_keys: "map fst (attempts env client item_keys w) = item_keys"
  by (induction item_keys arbitrary: w) (auto split: prod.splits sum.splits)

lemma successes_failures: "successes atts + length (failures atts) = length atts"
  by (induction atts rule: failures.induct) (auto simp: successes_def)

lemma batch_report_text:
  "batch_report n (map failure_line fs) =
     msg_batch_head @ str_nat n @ msg_items_suffix @
     (case fs of
        [] \<Rightarrow> []
      | f # rest \<Rightarrow>
          msg_batch_errors_head @ (fst f @ ascii '': '' @ snd f) @
          concat (map (\<lambda>g. 0xA # fst g @ ascii '': '' @ snd g) rest))"
  by (cases fs) (simp_all add: batch_report_def py_join_Cons failure_line_def comp_def)

text \<open>
  Claim C4. \<^verbatim>\<open>delete_items_batch\<close>, once the client is there, attempts every key once
  and in order, whether or not earlier keys failed: the calls it adds are one
  \<^verbatim>\<open>delete_item\<close> per key. The text it returns is the fixed head, the number of attempts
  that succeeded in decimal digits, the fixed unit, and, when an attempt raised, the
  fixed heading followed by one line \<^verbatim>\<open>key: message\<close> per attempt that raised, in the
  order of the keys, the lines separated by a line feed. The number is read back from
  its digits, and every key is either a success or a failure.
\<close>

theorem batch_isolated_failures:
  "get_zotero_client env s = (Inr (Some client), s1) \<longrightarrow>
     (\<exists>s2. delete_items_batch env item_keys s =
             (Inr (msg_batch_head @
                   str_nat (successes (attempts env client item_keys (world s1))) @
                   msg_items_suffix @
                   (case failures (attempts env client item_keys (world s1)) of
                      [] \<Rightarrow> []
                    | f # rest \<Rightarrow>
                        msg_batch_errors_head @ (fst f @ ascii '': '' @ snd f) @
                        concat (map (\<lambda>g. 0xA # fst g @ ascii '': '' @ snd g) rest))),
              s2) \<and>
           calls s2 = calls s1 @ map (\<lambda>k. CallDeleteItem client (PStr k)) item_keys) \<and>
     map fst (attempts env client item_keys (world s1)) = item_keys \<and>
     successes (attempts env client item_keys (world s1)) +
       length (failures (attempts env client item_keys (world s1))) = length item_keys \<and>
     decimal_value (str_nat (successes (attempts env client item_keys (world s1)))) =
       successes (attempts env client item_keys (world s1)) \<and>
     str_nat (successes (attempts env client item_keys (world s1))) \<noteq> [] \<and>
     list_all is_digit (str_nat (successes (attempts env client item_keys (world s1))))"
proof (intro impI conjI)
  assume g: "get_zotero_client env s = (Inr (Some client), s1)"
  obtain s2 where
    "delete_items_batch_loop env client item_keys 0 [] s1 =
       (Inr (0 + successes (attempts env client item_keys (world s1)),
             [] @ map failure_line (failures (attempts env client item_keys (world s1)))), s2)"
    and "calls s2 = calls s1 @ map (\<lambda>k. CallDeleteItem client (PStr k)) item_keys"
    using delete_items_batch_loop_spec [of env client item_keys 0 "[]" s1] by auto
  with g have "delete_items_batch env item_keys s =
             (Inr (batch_report (successes (attempts env client item_keys (world s1)))
                     (map failure_line (failures (attempts env client item_keys (world s1))))),
              s2) \<and>
           calls s2 = calls s1 @ map (\<lambda>k. CallDeleteItem client (PStr k)) item_keys"
    by (simp add: delete_items_batch_def py_simps)
  then show "\<exists>s2. delete_items_batch env item_keys s =
             (Inr (msg_batch_head @
                   str_nat (successes (attempts env client item_keys (world s1))) @
                   msg_items_suffix @
                   (case failures (attempts env client item_keys (world s1)) of
                      [] \<Rightarrow> []
                    | f # rest \<Rightarrow>
                        msg_batch_errors_head @ (fst f @ ascii '': '' @ snd f) @
                        concat (map (\<lambda>g. 0xA # fst g @ ascii '': '' @ snd g) rest))),
              s2) \<and>
           calls s2 = calls s1 @ map (\<lambda>k. CallDeleteItem client (PStr k)) item_keys"
    unfolding batch_report_text by blast
next
  show "map fst (attempts env client item_keys (world s1)) = item_keys"
    by (rule attempts_keys)
next
  show "successes (attempts env client item_keys (world s1)) +
       length (failures (attempts env client item_keys (world s1))) = length item_keys"
    using successes_failures [of "attempts env client item_keys (world s1)"]
      attempts_keys [of env client item_keys "world s1"]
    by (metis length_map)
next
  show "decimal_value (str_nat (successes (attempts env client item_keys (world s1)))) =
       successes (attempts env client item_keys (world s1))"
    by (rule decimal_value_str_nat)
next
  show "str_nat (successes (attempts env client item_keys (world s1))) \<noteq> []"
    by (simp add: str_nat_digits)
next
  show "list_all is_digit (str_nat (successes (attempts env client item_keys (world s1))))"
    by (simp add: str_nat_digits)
qed

text \<open>
  Deleting \<^verbatim>\<open>["A", "B", "C"]\<close> from a library that holds A and C: the attempt on B
  raises, A and C are deleted all the same, and the text returned is the head, \<^verbatim>\<open>2\<close>,
  the unit, the heading and the line \<^verbatim>\<open>B: not found\<close>, given here code point by code
  point.
\<close>

lemma demo_attempts:
  "attempts demo_env 0 [ascii ''A'', ascii ''B'', ascii ''C'']
     [demo_item ''A'' ''Logic'' ''book'', demo_item ''C'' ''Maps'' ''book''] =
   [(ascii ''A'', None), (ascii ''B'', Some (LibraryError (ascii ''not found''))),
    (ascii ''C'', None)]"
  by (simp add: demo_env_def demo_item_def item_get_key_def ascii_def)

theorem batch_isolated_failures_witness:
  "get_zotero_client demo_env
     (demo_state [demo_item ''A'' ''Logic'' ''book'', demo_item ''C'' ''Maps'' ''book'']) =
     (Inr (Some 0), demo_state [demo_item ''A'' ''Logic'' ''book'', demo_item ''C'' ''Maps'' ''book'']) \<and>
   successes (attempts demo_env 0 [ascii ''A'', ascii ''B'', ascii ''C'']
     [demo_item ''A'' ''Logic'' ''book'', demo_item ''C'' ''Maps'' ''book'']) = 2 \<and>
   failures (attempts demo_env 0 [ascii ''A'', ascii ''B'', ascii ''C'']
     [demo_item ''A'' ''Logic'' ''book'', demo_item ''C'' ''Maps'' ''book'']) =
     [(ascii ''B'', ascii ''not found'')] \<and>
   (\<exists>s2. delete_items_batch demo_env [ascii ''A'', ascii ''B'', ascii ''C'']
            (demo_state [demo_item ''A'' ''Logic'' ''book'', demo_item ''C'' ''Maps'' ''book'']) =
            (Inr [0x6210, 0x529F, 0x5220, 0x9664, 0x20, 0x32, 0x20, 0x4E2A, 0x6761, 0x76EE,
                  0xA, 0x5220, 0x9664, 0x5931, 0x8D25, 0x7684, 0x6761, 0x76EE, 0x3A, 0xA,
                  0x42, 0x3A, 0x20, 0x6E, 0x6F, 0x74, 0x20, 0x66, 0x6F, 0x75, 0x6E, 0x64], s2) \<and>
          calls s2 =
            [CallDeleteItem 0 (PStr (ascii ''A'')), CallDeleteItem 0 (PStr (ascii ''B'')),
             CallDeleteItem 0 (PStr (ascii ''C''))]) \<and>
   decimal_value [0x32] = 2"
proof -
  define w where "w = [demo_item ''A'' ''Logic'' ''book'', demo_item ''C'' ''Maps'' ''book'']"
  have g: "get_zotero_client demo_env (demo_state w) = (Inr (Some 0), demo_state w)"
    by (rule demo_get_client)
  have a: "attempts demo_env 0 [ascii ''A'', ascii ''B'', ascii ''C''] (world (demo_state w)) =
     [(ascii ''A'', None), (ascii ''B'', Some (LibraryError (ascii ''not found''))),
      (ascii ''C'', None)]"
    using demo_attempts by (simp add: w_def demo_state_def)
  have s: "successes [(ascii ''A'', None), (ascii ''B'', Some (LibraryError (ascii ''not found''))),
      (ascii ''C'', None)] = 2"
    by (simp add: successes_def)
  have f: "failures [(ascii ''A'', None), (ascii ''B'', Some (LibraryError (ascii ''not found''))),
      (ascii ''C'', None)] = [(ascii ''B'', ascii ''not found'')]"
    by simp
  have two: "str_nat 2 = [0x32]"
    by (simp add: str_nat.simps [of 2])
  note inst = batch_isolated_failures
      [of demo_env "demo_state w" 0 "demo_state w" "[ascii ''A'', ascii ''B'', ascii ''C'']"]
  from g inst obtain s2 where
    "delete_items_batch demo_env [ascii ''A'', ascii ''B'', ascii ''C''] (demo_state w) =
       (Inr (msg_batch_head @
             str_nat (successes (attempts demo_env 0 [ascii ''A'', ascii ''B'', ascii ''C'']
                                   (world (demo_state w)))) @
             msg_items_suffix @
             (case failures (attempts demo_env 0 [ascii ''A'', ascii ''B'', ascii ''C'']
                               (world (demo_state w))) of
                [] \<Rightarrow> []
              | f # rest \<Rightarrow>
                  msg_batch_errors_head @ (fst f @ ascii '': '' @ snd f) @
                  concat (map (\<lambda>g. 0xA # fst g @ ascii '': '' @ snd g) rest))), s2)"
    and "calls s2 = calls (demo_state w) @
           map (\<lambda>k. CallDeleteItem 0 (PStr k)) [ascii ''A'', ascii ''B'', ascii ''C'']"
    by blast
  then have r: "delete_items_batch demo_env [ascii ''A'', ascii ''B'', ascii ''C''] (demo_state w) =
            (Inr [0x6210, 0x529F, 0x5220, 0x9664, 0x20, 0x32, 0x20, 0x4E2A, 0x6761, 0x76EE,
                  0xA, 0x5220, 0x9664, 0x5931, 0x8D25, 0x7684, 0x6761, 0x76EE, 0x3A, 0xA,
                  0x42, 0x3A, 0x20, 0x6E, 0x6F, 0x74, 0x20, 0x66, 0x6F, 0x75, 0x6E, 0x64], s2) \<and>
          calls s2 =
            [CallDeleteItem 0 (PStr (ascii ''A'')), CallDeleteItem 0 (PStr (ascii ''B'')),
             CallDeleteItem 0 (PStr (ascii ''C''))]"
    unfolding a s f two
    by (simp add: demo_state_def msg_batch_head_def msg_items_suffix_def
        msg_batch_errors_head_def ascii_def)
  from inst g have "decimal_value (str_nat (successes (attempts demo_env 0
      [ascii ''A'', ascii ''B'', ascii ''C''] (world (demo_state w))))) =
      successes (attempts demo_env 0 [ascii ''A'', ascii ''B'', ascii ''C''] (world (demo_state w)))"
    by blast
  then have d: "decimal_value [0x32] = 2"
    unfolding a s two .
  from g a s f r d show ?thesis
    unfolding w_def [symmetric] by (auto simp: demo_state_def)
qed

section \<open>The item summary\<close>

lemma list_items_loop_map: "list_items_loop items result = result @ map list_items_entry items"
  by (induction items arbitrary: result) auto

lemma recent_items_loop_map:
  "recent_items_loop items result = result @ map recent_items_entry items"
  by (induction items arbitrary: result) auto

text \<open>
  The search keeps some of the items, in order, and projects each one it keeps; it
  returns nothing when a title is not a string.
\<close>

lemma search_items_loop_map:
  "search_items_loop env query item_type items acc = Inr res \<Longrightarrow>
   \<exists>kept. subseq kept items \<and> res = acc @ map search_items_entry kept"
proof (induction items arbitrary: acc)
  case Nil
  then show ?case by simp
next
  case (Cons it items)
  from Cons.prems obtain title where
    t: "py_lower env (dict_get_default (item_get_data it) (ascii ''title'') (PStr [])) = Inr title"
    by (auto split: sum.splits)
  show ?case
  proof (cases "str_in (str_lower env query) title \<and>
      (case item_type of None \<Rightarrow> True
       | Some t \<Rightarrow> py_eq (dict_get (item_get_data it) (ascii ''itemType'')) (PStr t))")
    case True
    with t Cons.prems
    have "search_items_loop env query item_type items (acc @ [search_items_entry it]) = Inr res"
      by simp
    from Cons.IH [OF this] obtain kept where
      "subseq kept items" "res = (acc @ [search_items_entry it]) @ map search_items_entry kept"
      by auto
    then have "subseq (it # kept) (it # items) \<and> res = acc @ map search_items_entry (it # kept)"
      by simp
    then show ?thesis by blast
  next
    case False
    with t Cons.prems
    have "search_items_loop env query item_type items acc = Inr res"
      by (auto split: if_splits)
    from Cons.IH [OF this] obtain kept where
      "subseq kept items" "res = acc @ map search_items_entry kept"
      by auto
    then have "subseq kept (it # items) \<and> res = acc @ map search_items_entry kept"
      by (simp add: list_emb_Cons)
    then show ?thesis by blast
  qed
qed

text \<open>
  Claim C8, as the code has it. The three dict literals (lines 71 to 76, 137 to 142 and
  262 to 267) are the same projection of an item: the entries \<^verbatim>\<open>key\<close>, \<^verbatim>\<open>title\<close>,
  \<^verbatim>\<open>itemType\<close>, \<^verbatim>\<open>dateAdded\<close>, in this order, where the title is the item's title when
  it has one and otherwise the placeholder of the source, the three code points U+65E0
  U+6807 U+9898. \<^verbatim>\<open>list_items\<close> and \<^verbatim>\<open>get_recent_items\<close> project every item they
  fetched, and \<^verbatim>\<open>search_items\<close> the items it keeps.
\<close>

theorem summary_projection:
  "list_items_entry it = search_items_entry it \<and>
   search_items_entry it = recent_items_entry it \<and>
   map fst (list_items_entry it) =
     [ascii ''key'', ascii ''title'', ascii ''itemType'', ascii ''dateAdded''] \<and>
   map_of (list_items_entry it) (ascii ''title'') =
     Some (case item_get_data it (ascii ''title'') of
             None \<Rightarrow> PStr [0x65E0, 0x6807, 0x9898]
           | Some v \<Rightarrow> v) \<and>
   list_items_loop items [] = map list_items_entry items \<and>
   recent_items_loop items [] = map list_items_entry items \<and>
   (search_items_loop env query item_type items [] = Inr res \<longrightarrow>
      (\<exists>kept. subseq kept items \<and> res = map list_items_entry kept))"
proof -
  have e1: "list_items_entry it = search_items_entry it" for it
    by (simp add: list_items_entry_def search_items_entry_def Let_def)
  have e2: "search_items_entry it = recent_items_entry it" for it
    by (simp add: recent_items_entry_def search_items_entry_def)
  have e3: "map fst (list_items_entry it) =
     [ascii ''key'', ascii ''title'', ascii ''itemType'', ascii ''dateAdded'']"
    by (simp add: list_items_entry_def)
  have e4: "map_of (list_items_entry it) (ascii ''title'') =
     Some (case item_get_data it (ascii ''title'') of
             None \<Rightarrow> PStr [0x65E0, 0x6807, 0x9898]
           | Some v \<Rightarrow> v)"
    by (simp add: list_items_entry_def ascii_eq_iff dict_get_default_def untitled_def)
  have e5: "list_items_loop items [] = map list_items_entry items"
    by (simp add: list_items_loop_map)
  have e6: "recent_items_loop items [] = map list_items_entry items"
    using e1 e2 by (simp add: recent_items_loop_map)
  have e7: "\<exists>kept. subseq kept items \<and> res = map list_items_entry kept"
    if "search_items_loop env query item_type items [] = Inr res"
    using search_items_loop_map [OF that] e1 by auto
  from e1 e2 e3 e4 e5 e6 e7 show ?thesis by blast
qed

text \<open>Searching the substitute library for \<^verbatim>\<open>log\<close> keeps item A and projects it.\<close>

lemma demo_search:
  "search_items_loop demo_env (ascii ''log'') None demo_library [] =
     Inr [search_items_entry (demo_item ''A'' ''Logic'' ''book'')]"
  by (simp add: demo_simps)

theorem summary_projection_witness:
  "search_items_loop demo_env (ascii ''log'') None demo_library [] =
     Inr [search_items_entry (demo_item ''A'' ''Logic'' ''book'')] \<and>
   (\<exists>kept. subseq kept demo_library \<and>
      [search_items_entry (demo_item ''A'' ''Logic'' ''book'')] = map list_items_entry kept) \<and>
   list_items_entry (demo_item ''A'' ''Logic'' ''book'') =
     search_items_entry (demo_item ''A'' ''Logic'' ''book'')"
  using summary_projection
          [of "demo_item ''A'' ''Logic'' ''book''" demo_library demo_env "ascii ''log''" None
              "[search_items_entry (demo_item ''A'' ''Logic'' ''book'')]"]
    demo_search
  by blast

text \<open>
  The placeholder is not the string \<^verbatim>\<open>Untitled\<close>: for an item without a title,
  \<^verbatim>\<open>list_items\<close> emits the title U+65E0 U+6807 U+9898.
\<close>

theorem summary_placeholder_counterexample:
  "list_items_loop [\<lparr>item_key = Some (PStr (ascii ''K'')), item_data = None\<rparr>] [] =
     [[(ascii ''key'', PStr (ascii ''K'')), (ascii ''title'', PStr [0x65E0, 0x6807, 0x9898]),
       (ascii ''itemType'', PNone), (ascii ''dateAdded'', PNone)]] \<and>
   map_of (list_items_entry \<lparr>item_key = Some (PStr (ascii ''K'')), item_data = None\<rparr>)
     (ascii ''title'') \<noteq> Some (PStr (ascii ''Untitled''))"
  by (simp add: list_items_entry_def item_get_key_def item_get_data_def dict_get_def
      dict_get_default_def untitled_def ascii_def)

section \<open>Every operation returns a text\<close>

lemma py_try_total: "\<exists>r. fst (py_try body (\<lambda>e. py_return (h e)) s) = Inr r"
  by (auto simp: py_try_def py_return_def split: prod.splits sum.splits)

text \<open>
  The shape shared by the operations that go through the gateway: without a client a
  fixed text, with one a \<^verbatim>\<open>try\<close> block whose handler returns a text.
\<close>

lemma gateway_total:
  "\<exists>r. fst (py_bind (get_zotero_client env)
            (\<lambda>z. case z of None \<Rightarrow> py_return m
                  | Some client \<Rightarrow> py_try (body client) (\<lambda>e. py_return (h client e))) s) = Inr r"
proof -
  obtain z s1 where g: "get_zotero_client env s = (Inr z, s1)"
    using get_zotero_client_total [of env s] by (cases "get_zotero_client env s") auto
  show ?thesis
  proof (cases z)
    case None
    with g show ?thesis by (simp add: py_bind_def py_return_def)
  next
    case (Some client)
    with g py_try_total [of "body client" "h client" s1] show ?thesis
      by (simp add: py_bind_def)
  qed
qed

lemma gateway_absent:
  "fst (get_zotero_client env s) = Inr None \<Longrightarrow>
   py_bind (get_zotero_client env)
     (\<lambda>z. case z of None \<Rightarrow> py_return m | Some client \<Rightarrow> f client) s =
     (Inr m, snd (get_zotero_client env s))"
  by (cases "get_zotero_client env s") (simp add: py_bind_def py_return_def)

text \<open>
  Claim C9. Each of the ten operations returns a text for every input, state and
  behaviour of the library: none raises. When \<^verbatim>\<open>get_zotero_client\<close> returns no client,
  each operation that uses it returns its not-configured text and adds no method call
  of a client to the record; and when a credential is empty, \<^verbatim>\<open>get_zotero_client\<close>
  returns no client and leaves the state, the record of calls included, untouched.
\<close>

theorem operations_total:
  "(\<exists>r. fst (configure_zotero env library_id api_key library_type s) = Inr r) \<and>
   (\<exists>r. fst (check_zotero_config s) = Inr r) \<and>
   (\<exists>r. fst (list_items env limit s) = Inr r) \<and>
   (\<exists>r. fst (delete_item env k s) = Inr r) \<and>
   (\<exists>r. fst (delete_items_batch env item_keys s) = Inr r) \<and>
   (\<exists>r. fst (search_items env query item_type s) = Inr r) \<and>
   (\<exists>r. fst (get_item_details env k s) = Inr r) \<and>
   (\<exists>r. fst (retain_items_by_criteria env criteria dry_run s) = Inr r) \<and>
   (\<exists>r. fst (get_library_stats env s) = Inr r) \<and>
   (\<exists>r. fst (get_recent_items env s) = Inr r) \<and>
   (fst (get_zotero_client env s) = Inr None \<longrightarrow>
      list_items env limit s = (Inr msg_not_configured, snd (get_zotero_client env s)) \<and>
      delete_item env k s = (Inr msg_not_configured, snd (get_zotero_client env s)) \<and>
      delete_items_batch env item_keys s = (Inr msg_not_configured, snd (get_zotero_client env s)) \<and>
      search_items env query item_type s = (Inr msg_not_configured, snd (get_zotero_client env s)) \<and>
      get_item_details env k s = (Inr msg_not_configured, snd (get_zotero_client env s)) \<and>
      retain_items_by_criteria env criteria dry_run s =
        (Inr msg_not_configured, snd (get_zotero_client env s)) \<and>
      get_library_stats env s =
        (Inr (json_dumps env (DumpError msg_not_configured_json)), snd (get_zotero_client env s)) \<and>
      get_recent_items env s =
        (Inr (json_dumps env (DumpError msg_not_configured_json)), snd (get_zotero_client env s)) \<and>
      (\<exists>new. calls (snd (get_zotero_client env s)) = calls s @ new \<and>
             filter is_method_call new = [])) \<and>
   (ZOTERO_LIBRARY_ID s = [] \<or> ZOTERO_API_KEY s = [] \<longrightarrow> get_zotero_client env s = (Inr None, s))"
proof -
  have t1: "\<exists>r. fst (configure_zotero env library_id api_key library_type s) = Inr r"
  proof (cases "valid_configuration library_id api_key library_type")
    case True
    then have "configure_zotero env library_id api_key library_type s =
       configure_probe env
         (s\<lparr>ZOTERO_LIBRARY_ID := strip library_id, ZOTERO_API_KEY := strip api_key,
            ZOTERO_LIBRARY_TYPE := library_type, zot := None\<rparr>)"
      by (rule configure_zotero_valid)
    with configure_probe_globals show ?thesis by (metis fst_conv)
  next
    case False
    then show ?thesis
      by (auto simp: valid_configuration_def configure_zotero_def)
  qed
  have t2: "\<exists>r. fst (check_zotero_config s) = Inr r"
    by (simp add: check_zotero_config_def)
  have t3: "\<exists>r. fst (list_items env limit s) = Inr r"
    unfolding list_items_def by (rule gateway_total)
  have t4: "\<exists>r. fst (delete_item env k s) = Inr r"
    unfolding delete_item_def by (rule gateway_total)
  have t5: "\<exists>r. fst (delete_items_batch env item_keys s) = Inr r"
    unfolding delete_items_batch_def by (rule gateway_total)
  have t6: "\<exists>r. fst (search_items env query item_type s) = Inr r"
    unfolding search_items_def by (rule gateway_total)
  have t7: "\<exists>r. fst (get_item_details env k s) = Inr r"
    unfolding get_item_details_def by (rule gateway_total)
  have t8: "\<exists>r. fst (retain_items_by_criteria env criteria dry_run s) = Inr r"
    unfolding retain_items_by_criteria_def by (rule gateway_total)
  have t9: "\<exists>r. fst (get_library_stats env s) = Inr r"
    unfolding get_library_stats_def by (rule gateway_total)
  have t10: "\<exists>r. fst (get_recent_items env s) = Inr r"
    unfolding get_recent_items_def by (rule gateway_total)
  have absent: "list_items env limit s = (Inr msg_not_configured, snd (get_zotero_client env s)) \<and>
      delete_item env k s = (Inr msg_not_configured, snd (get_zotero_client env s)) \<and>
      delete_items_batch env item_keys s = (Inr msg_not_configured, snd (get_zotero_client env s)) \<and>
      search_items env query item_type s = (Inr msg_not_configured, snd (get_zotero_client env s)) \<and>
      get_item_details env k s = (Inr msg_not_configured, snd (get_zotero_client env s)) \<and>
      retain_items_by_criteria env criteria dry_run s =
        (Inr msg_not_configured, snd (get_zotero_client env s)) \<and>
      get_library_stats env s =
        (Inr (json_dumps env (DumpError msg_not_configured_json)), snd (get_zotero_client env s)) \<and>
      get_recent_items env s =
        (Inr (json_dumps env (DumpError msg_not_configured_json)), snd (get_zotero_client env s))"
    if "fst (get_zotero_client env s) = Inr None"
    unfolding list_items_def delete_item_def delete_items_batch_def search_items_def
      get_item_details_def retain_items_by_criteria_def get_library_stats_def get_recent_items_def
    by (intro conjI gateway_absent that)
  from t1 t2 t3 t4 t5 t6 t7 t8 t9 t10 absent
    get_zotero_client_no_method_call [of env s] get_zotero_client_not_configured [of s env]
  show ?thesis by blast
qed

text \<open>
  A process started without credentials, on the substitute library: no client, no call,
  and the not-configured text, here for \<^verbatim>\<open>delete_items_batch\<close> and for a real run of
  \<^verbatim>\<open>retain_items_by_criteria\<close>.
\<close>

theorem operations_total_witness:
  "ZOTERO_LIBRARY_ID (initial_state None None None demo_library :: (item list, nat) state) = [] \<and>
   get_zotero_client demo_env (initial_state None None None demo_library) =
     (Inr None, initial_state None None None demo_library) \<and>
   delete_items_batch demo_env [ascii ''A''] (initial_state None None None demo_library) =
     (Inr msg_not_configured, initial_state None None None demo_library) \<and>
   retain_items_by_criteria demo_env demo_criteria False (initial_state None None None demo_library) =
     (Inr msg_not_configured, initial_state None None None demo_library) \<and>
   calls (initial_state None None None demo_library :: (item list, nat) state) = []"
proof -
  define s0 :: "(item list, nat) state" where "s0 = initial_state None None None demo_library"
  have i: "ZOTERO_LIBRARY_ID s0 = []" and c: "calls s0 = []"
    by (simp_all add: s0_def initial_state_def)
  note inst = operations_total
      [of demo_env "[]" "[]" "[]" s0 0 "[]" "[ascii ''A'']" "[]" None demo_criteria False]
  from i inst have g: "get_zotero_client demo_env s0 = (Inr None, s0)"
    by blast
  with inst have
    "delete_items_batch demo_env [ascii ''A''] s0 =
       (Inr msg_not_configured, snd (get_zotero_client demo_env s0)) \<and>
     retain_items_by_criteria demo_env demo_criteria False s0 =
       (Inr msg_not_configured, snd (get_zotero_client demo_env s0))"
    by simp
  with g i c show ?thesis
    unfolding s0_def by simp
qed

end
